theory Spec2Isabelle
  imports Main
begin

section \<open>Text primitives of the scraper\<close>

text \<open>
  The scraper (\<^verbatim>\<open>src/amboss_scraper.py\<close>, class \<^verbatim>\<open>AmbossScraper\<close>) works on Python
  strings. A Python \<^verbatim>\<open>str\<close> is modelled as a \<^typ>\<open>string\<close>, one \<^typ>\<open>char\<close> per
  character: the model covers text whose characters lie in Latin-1 (up to U+00FF). On
  that range the character classes follow Python: white space as \<^verbatim>\<open>split()\<close> and
  \<^verbatim>\<open>strip()\<close> see it (U+0085 and U+00A0 included), \<^verbatim>\<open>\d\<close> as the ten decimal digits,
  and \<^verbatim>\<open>lower()\<close> on the ASCII and the Latin-1 capital letters. The few glyphs beyond
  U+00FF that the source writes as literals (the bullet glyphs and the call-out icons)
  appear as their UTF-8 bytes; they are only ever concatenated, joined and searched for
  a pipe, never split at white space, stripped, lower-cased or measured.
\<close>

definition is_space :: "char \<Rightarrow> bool" where
  \<comment> \<open>what \<^verbatim>\<open>str.split()\<close> and \<^verbatim>\<open>str.strip()\<close> treat as white space, up to U+00FF\<close>
  "is_space c \<longleftrightarrow>
     c \<in> set [CHR 0x09, CHR 0x0A, CHR 0x0B, CHR 0x0C, CHR 0x0D,
              CHR 0x1C, CHR 0x1D, CHR 0x1E, CHR 0x1F, CHR 0x20, CHR 0x85, CHR 0xA0]"

definition is_digit :: "char \<Rightarrow> bool" where
  "is_digit c \<longleftrightarrow> c \<in> set ''0123456789''"

definition lower_char :: "char \<Rightarrow> char" where
  \<comment> \<open>A to Z, and the Latin-1 capitals U+00C0 to U+00DE but for the sign U+00D7, move
      up by 32; every other character up to U+00FF is its own lower case\<close>
  "lower_char c =
     (let n = (of_char c :: nat) in
      if (65 \<le> n \<and> n \<le> 90) \<or> (192 \<le> n \<and> n \<le> 222 \<and> n \<noteq> 215)
      then char_of (n + 32) else c)"

definition lower :: "string \<Rightarrow> string" where
  \<comment> \<open>\<^verbatim>\<open>s.lower()\<close>\<close>
  "lower s = map lower_char s"

definition startswith :: "string \<Rightarrow> string \<Rightarrow> bool" where
  \<comment> \<open>\<^verbatim>\<open>s.startswith(p)\<close>\<close>
  "startswith s p \<longleftrightarrow> take (length p) s = p"

definition endswith :: "string \<Rightarrow> string \<Rightarrow> bool" where
  \<comment> \<open>\<^verbatim>\<open>s.endswith(p)\<close>\<close>
  "endswith s p \<longleftrightarrow> length p \<le> length s \<and> drop (length s - length p) s = p"

fun contains :: "string \<Rightarrow> string \<Rightarrow> bool" where
  \<comment> \<open>\<^verbatim>\<open>p in s\<close> on strings: \<open>p\<close> occurs in \<open>s\<close> as a contiguous substring\<close>
  "contains p [] \<longleftrightarrow> p = []"
| "contains p (c # cs) \<longleftrightarrow> startswith (c # cs) p \<or> contains p cs"

fun join :: "string \<Rightarrow> string list \<Rightarrow> string" where
  \<comment> \<open>\<^verbatim>\<open>sep.join(xs)\<close>\<close>
  "join sep [] = []"
| "join sep [x] = x"
| "join sep (x # y # ys) = x @ sep @ join sep (y # ys)"

fun split_ws_from :: "string \<Rightarrow> string \<Rightarrow> string list" where
  \<comment> \<open>the scan behind \<^verbatim>\<open>s.split()\<close>; the first argument is the word read so far\<close>
  "split_ws_from w [] = (if w = [] then [] else [w])"
| "split_ws_from w (c # cs) =
     (if is_space c then (if w = [] then split_ws_from [] cs else w # split_ws_from [] cs)
      else split_ws_from (w @ [c]) cs)"

definition split_ws :: "string \<Rightarrow> string list" where
  \<comment> \<open>\<^verbatim>\<open>s.split()\<close>: the maximal runs of characters that are not white space\<close>
  "split_ws s = split_ws_from [] s"

fun split_on_from :: "char \<Rightarrow> string \<Rightarrow> string \<Rightarrow> string list" where
  \<comment> \<open>the scan behind \<^verbatim>\<open>s.split(d)\<close> for a one-character separator\<close>
  "split_on_from d w [] = [w]"
| "split_on_from d w (c # cs) =
     (if c = d then w # split_on_from d [] cs else split_on_from d (w @ [c]) cs)"

definition split_on :: "char \<Rightarrow> string \<Rightarrow> string list" where
  \<comment> \<open>\<^verbatim>\<open>s.split(d)\<close>: always one field more than there are separators\<close>
  "split_on d s = split_on_from d [] s"

definition inner_fields :: "'a list \<Rightarrow> 'a list" where
  \<comment> \<open>the slice \<^verbatim>\<open>xs[1:-1]\<close>\<close>
  "inner_fields xs = butlast (tl xs)"

definition strip :: "string \<Rightarrow> string" where
  \<comment> \<open>\<^verbatim>\<open>s.strip()\<close>\<close>
  "strip s = rev (dropWhile is_space (rev (dropWhile is_space s)))"

fun str_replace :: "string \<Rightarrow> string \<Rightarrow> string \<Rightarrow> string" where
  \<comment> \<open>\<^verbatim>\<open>s.replace(old, new)\<close>: leftmost occurrences, not overlapping; arguments are
      \<open>old\<close>, \<open>new\<close>, \<open>s\<close>\<close>
  "str_replace [] new s = new @ concat (map (\<lambda>c. c # new) s)"
| "str_replace (a # old) new [] = []"
| "str_replace (a # old) new (c # cs) =
     (if startswith (c # cs) (a # old)
      then new @ str_replace (a # old) new (drop (length old) cs)
      else c # str_replace (a # old) new cs)"

fun digit_char :: "nat \<Rightarrow> char" where
  "digit_char n = char_of (48 + n mod 10)"

fun str_nat :: "nat \<Rightarrow> string" where
  \<comment> \<open>the decimal numeral that an f-string prints for a non-negative \<^verbatim>\<open>int\<close>\<close>
  "str_nat n = (if n < 10 then [digit_char n] else str_nat (n div 10) @ [digit_char n])"

declare str_nat.simps [simp del]

subsection \<open>The reference-marker pattern\<close>

text \<open>
  \<^verbatim>\<open>re.sub(r'\[\d+\](?:\[\d+\])*', '', text)\<close>. \<open>match_ref\<close> matches one bracket group
  \<^verbatim>\<open>\[\d+\]\<close> at the head of the text and returns the rest; \<open>skip_refs\<close> is the starred
  group; \<open>sub_refs\<close> is the substitution: scan from the left, delete each match, keep
  every other character.
\<close>

definition match_ref :: "string \<Rightarrow> string option" where
  "match_ref s =
     (case s of
        [] \<Rightarrow> None
      | c # r \<Rightarrow>
          if c = CHR ''['' \<and> takeWhile is_digit r \<noteq> [] then
            (case dropWhile is_digit r of
               [] \<Rightarrow> None
             | e # r' \<Rightarrow> if e = CHR '']'' then Some r' else None)
          else None)"

lemma match_ref_shorter: "match_ref s = Some r \<Longrightarrow> length r < length s"
proof -
  assume m: "match_ref s = Some r"
  then obtain c t where s: "s = c # t"
    by (cases s) (auto simp: match_ref_def)
  from m s obtain e where d: "dropWhile is_digit t = e # r"
    by (auto simp: match_ref_def split: if_splits list.splits)
  have "length (dropWhile is_digit t) \<le> length t"
    by (rule length_dropWhile_le)
  with d s show ?thesis by simp
qed

function skip_refs :: "string \<Rightarrow> string" where
  "skip_refs s = (case match_ref s of Some r \<Rightarrow> skip_refs r | None \<Rightarrow> s)"
  by pat_completeness auto
termination
  by (relation "measure length") (auto dest: match_ref_shorter)

declare skip_refs.simps [simp del]

lemma skip_refs_le: "length (skip_refs s) \<le> length s"
proof (induction s rule: skip_refs.induct)
  case (1 s)
  show ?case
  proof (cases "match_ref s")
    case None
    then show ?thesis by (simp add: skip_refs.simps [of s])
  next
    case (Some r)
    with "1" have "length (skip_refs r) \<le> length r" by simp
    moreover from Some have "length r < length s" by (rule match_ref_shorter)
    ultimately show ?thesis using Some by (simp add: skip_refs.simps [of s])
  qed
qed

function sub_refs :: "string \<Rightarrow> string" where
  "sub_refs [] = []"
| "sub_refs (c # cs) =
     (case match_ref (c # cs) of
        Some r \<Rightarrow> sub_refs (skip_refs r)
      | None \<Rightarrow> c # sub_refs cs)"
  by pat_completeness auto
termination
proof (relation "measure length")
  show "wf (measure length)" by simp
next
  fix c cs r
  assume "match_ref (c # cs) = Some r"
  then have "length r < length (c # cs)" by (rule match_ref_shorter)
  moreover have "length (skip_refs r) \<le> length r" by (rule skip_refs_le)
  ultimately show "(skip_refs r, c # cs) \<in> measure length" by simp
next
  fix c :: char and cs :: string
  show "(cs, c # cs) \<in> measure length" by simp
qed

subsection \<open>clean\_text\<close>

definition unwanted_strings :: "string list" where
  "unwanted_strings = [''Maximize table'', ''Table Quiz'', ''Collapse'', ''Notes'', ''Feedback'']"

definition clean_text :: "string \<Rightarrow> string" where
  "clean_text text =
     (if text = [] then []
      else strip (foldl (\<lambda>t unwanted. str_replace unwanted [] t)
                    (sub_refs (join '' '' (split_ws text))) unwanted_strings))"

section \<open>The document tree\<close>

text \<open>
  The scraper reads the page through BeautifulSoup. The parsed page is modelled as the
  tree it is: a \<open>Tag\<close> has a name, the multi-valued \<^verbatim>\<open>class\<close> attribute (absent, or
  a list of class names), its other attributes (single strings, looked up by key) and
  its children in document order; a \<open>NavigableString\<close> is a piece of text. Parsing
  HTML into this tree is BeautifulSoup's work and outside the model. The functions of
  this section are the library calls the scraper uses, as BeautifulSoup documents them.
\<close>

datatype node =
    Tag string "string list option" "(string \<times> string) list" "node list"
  | NavigableString string

fun contents :: "node \<Rightarrow> node list" where
  \<comment> \<open>\<^verbatim>\<open>tag.contents\<close>, \<^verbatim>\<open>tag.children\<close>\<close>
  "contents (Tag n c a cs) = cs"
| "contents (NavigableString s) = []"

fun get_class :: "node \<Rightarrow> string list" where
  \<comment> \<open>\<^verbatim>\<open>tag.get('class', [])\<close>\<close>
  "get_class (Tag n c a cs) = (case c of None \<Rightarrow> [] | Some l \<Rightarrow> l)"
| "get_class (NavigableString s) = []"

fun get_attr :: "node \<Rightarrow> string \<Rightarrow> string" where
  \<comment> \<open>\<^verbatim>\<open>tag.get(key, '')\<close> for a single-valued attribute\<close>
  "get_attr (Tag n c a cs) k = (case map_of a k of None \<Rightarrow> [] | Some v \<Rightarrow> v)"
| "get_attr (NavigableString s) k = []"

fun get_text :: "node \<Rightarrow> string" where
  \<comment> \<open>\<^verbatim>\<open>get_text()\<close>: all the text below the node, in document order\<close>
  "get_text (NavigableString s) = s"
| "get_text (Tag n c a cs) = concat (map get_text cs)"

fun descendants :: "node \<Rightarrow> node list" where
  \<comment> \<open>every node below the given one, in document order\<close>
  "descendants (NavigableString s) = []"
| "descendants (Tag n c a cs) = concat (map (\<lambda>x. x # descendants x) cs)"

definition soup_find_all :: "(node \<Rightarrow> bool) \<Rightarrow> node \<Rightarrow> node list" where
  \<comment> \<open>\<^verbatim>\<open>tag.find_all(...)\<close>; the predicate stands for the name and attribute filters\<close>
  "soup_find_all P nd = filter P (descendants nd)"

definition soup_find :: "(node \<Rightarrow> bool) \<Rightarrow> node \<Rightarrow> node option" where
  \<comment> \<open>\<^verbatim>\<open>tag.find(...)\<close>: the first match in document order, or \<^verbatim>\<open>None\<close>\<close>
  "soup_find P nd = (case soup_find_all P nd of [] \<Rightarrow> None | x # _ \<Rightarrow> Some x)"

definition find_all_direct :: "(node \<Rightarrow> bool) \<Rightarrow> node \<Rightarrow> node list" where
  \<comment> \<open>\<^verbatim>\<open>tag.find_all(..., recursive=False)\<close>: matches among the direct children only\<close>
  "find_all_direct P nd = filter P (contents nd)"

definition find_direct :: "(node \<Rightarrow> bool) \<Rightarrow> node \<Rightarrow> node option" where
  \<comment> \<open>\<^verbatim>\<open>tag.find(..., recursive=False)\<close>\<close>
  "find_direct P nd = (case find_all_direct P nd of [] \<Rightarrow> None | x # _ \<Rightarrow> Some x)"

fun named :: "string list \<Rightarrow> node \<Rightarrow> bool" where
  \<comment> \<open>the name filter: a tag whose name is one of those listed\<close>
  "named ns (Tag n c a cs) \<longleftrightarrow> n \<in> set ns"
| "named ns (NavigableString s) \<longleftrightarrow> False"

fun has_attr :: "string \<Rightarrow> string \<Rightarrow> node \<Rightarrow> bool" where
  \<comment> \<open>the filter \<^verbatim>\<open>{key: value}\<close> on a single-valued attribute\<close>
  "has_attr k v (Tag n c a cs) \<longleftrightarrow> map_of a k = Some v"
| "has_attr k v (NavigableString s) \<longleftrightarrow> False"

fun class_matches :: "(string \<Rightarrow> bool) \<Rightarrow> node \<Rightarrow> bool" where
  \<comment> \<open>the filter \<^verbatim>\<open>class_=f\<close>: BeautifulSoup tries \<open>f\<close> on each class name, then on
      the class names joined by spaces. Every \<open>f\<close> of the scraper rejects an absent
      attribute (\<^verbatim>\<open>lambda x: x and ...\<close>), and so does a string filter.\<close>
  "class_matches f (Tag n c a cs) \<longleftrightarrow>
     (case c of None \<Rightarrow> False | Some l \<Rightarrow> (\<exists>x \<in> set l. f x) \<or> f (join '' '' l))"
| "class_matches f (NavigableString s) \<longleftrightarrow> False"

definition or_else :: "'a option \<Rightarrow> 'a option \<Rightarrow> 'a option" where
  \<comment> \<open>Python's \<^verbatim>\<open>x or y\<close> on results of \<^verbatim>\<open>find\<close>: a tag is always truthy\<close>
  "or_else x y = (case x of None \<Rightarrow> y | Some v \<Rightarrow> Some v)"

section \<open>The document title\<close>

definition extract_article_title_from_soup :: "node \<Rightarrow> string" where
  "extract_article_title_from_soup soup =
     (let first_try =
        (case soup_find (named [''title'']) soup of
           None \<Rightarrow> None
         | Some title_tag \<Rightarrow>
             (let title_text = strip (get_text title_tag);
                  title_text = (if endswith title_text '' - AMBOSS''
                                then strip (take (length title_text - 9) title_text)
                                else title_text)
              in if title_text \<noteq> [] then Some title_text else None))
      in case first_try of
        Some t \<Rightarrow> t
      | None \<Rightarrow>
         (let second_try =
            (case soup_find (has_attr ''data-e2e-test-id'' ''articleHeader'') soup of
               None \<Rightarrow> None
             | Some article_header \<Rightarrow>
                 (case or_else (soup_find (named [''h1'']) article_header)
                        (or_else (soup_find (named [''h2'']) article_header)
                           (soup_find (class_matches (\<lambda>x. contains ''title'' (lower x)))
                              article_header)) of
                    None \<Rightarrow> None
                  | Some title_element \<Rightarrow> Some (clean_text (get_text title_element))))
          in case second_try of
            Some t \<Rightarrow> t
          | None \<Rightarrow>
             (case soup_find (named [''h1'']) soup of
                None \<Rightarrow> ''Medical Content''
              | Some main_heading \<Rightarrow>
                  (let t = clean_text (get_text main_heading)
                   in if t \<noteq> [] then t else ''Medical Content''))))"

section \<open>Section titles\<close>

definition extract_section_title_from_element :: "node \<Rightarrow> string option" where
  "extract_section_title_from_element section =
     (case soup_find (named [''h3'']) section of
        None \<Rightarrow> None
      | Some h3_element \<Rightarrow>
          (let t = clean_text (get_text h3_element) in if t \<noteq> [] then Some t else None))"

definition resolved_title :: "nat \<Rightarrow> node \<Rightarrow> string" where
  \<comment> \<open>the title that the loop of \<^verbatim>\<open>extract_sections\<close> stores for the section at
      index \<open>i\<close> (counted from 0)\<close>
  "resolved_title i section =
     (case extract_section_title_from_element section of
        Some t \<Rightarrow> t
      | None \<Rightarrow> ''Section '' @ str_nat (i + 1))"

text \<open>
  \<^verbatim>\<open>extract_section_title\<close> is the five-strategy cascade. It is defined in the class
  and called from nowhere; each strategy is one definition here, in the source's order.
\<close>

definition has_keyword :: "string list \<Rightarrow> string \<Rightarrow> bool" where
  \<comment> \<open>\<^verbatim>\<open>any(keyword in x.lower() for keyword in keywords)\<close>\<close>
  "has_keyword keywords x \<longleftrightarrow> (\<exists>k \<in> set keywords. contains k (lower x))"

definition h3_title_in :: "node \<Rightarrow> string option" where
  \<comment> \<open>the cleaned text of the first \<^verbatim>\<open>h3\<close> below a node, when it is not empty\<close>
  "h3_title_in nd =
     (case soup_find (named [''h3'']) nd of
        None \<Rightarrow> None
      | Some h3_element \<Rightarrow>
          (let t = clean_text (get_text h3_element) in if t \<noteq> [] then Some t else None))"

definition title_strategy1 :: "node \<Rightarrow> string option" where
  "title_strategy1 section =
     (case soup_find (\<lambda>x. named [''div''] x \<and> has_attr ''data-e2e-test-id'' ''particle-header'' x)
             section of
        None \<Rightarrow> None
      | Some header_element \<Rightarrow> h3_title_in header_element)"

definition title_strategy2 :: "node \<Rightarrow> string option" where
  "title_strategy2 section =
     (case soup_find (\<lambda>x. named [''div''] x \<and> class_matches (\<lambda>c. contains ''header'' (lower c)) x)
             section of
        None \<Rightarrow> None
      | Some header_container \<Rightarrow> h3_title_in header_container)"

definition title_strategy3 :: "node \<Rightarrow> string option" where
  "title_strategy3 section = h3_title_in section"

definition title_strategy4 :: "node \<Rightarrow> string option" where
  "title_strategy4 section =
     (case filter (\<lambda>t. t \<noteq> [] \<and> length t < 100)
             (map (\<lambda>button. clean_text (get_text button))
                (soup_find_all
                   (\<lambda>x. named [''button'', ''div''] x \<and>
                        class_matches (has_keyword [''header'', ''title'', ''button'']) x)
                   section)) of
        [] \<Rightarrow> None
      | t # _ \<Rightarrow> Some t)"

definition title_strategy5 :: "node \<Rightarrow> string option" where
  "title_strategy5 section =
     (case filter (\<lambda>t. t \<noteq> [] \<and> 5 < length t \<and> length t < 100)
             (map (\<lambda>elem. clean_text (get_text elem))
                (filter (\<lambda>elem. get_class elem \<noteq> [] \<and>
                                has_keyword [''header'', ''title''] (join '' '' (get_class elem)))
                   (take 10 (soup_find_all (named [''div'', ''span'']) section)))) of
        [] \<Rightarrow> None
      | t # _ \<Rightarrow> Some t)"

definition extract_section_title :: "node \<Rightarrow> string option" where
  "extract_section_title section =
     or_else (title_strategy1 section)
       (or_else (title_strategy2 section)
          (or_else (title_strategy3 section)
             (or_else (title_strategy4 section) (title_strategy5 section))))"

text \<open>
  The title that the specification describes for the section at index \<open>i\<close>: the result
  of the cascade, and the positional placeholder when all five strategies fail. It
  follows the specification's words, to be compared with \<open>resolved_title\<close>.
\<close>

definition claimed_section_title :: "nat \<Rightarrow> node \<Rightarrow> string" where
  "claimed_section_title i section =
     (case extract_section_title section of
        Some t \<Rightarrow> t
      | None \<Rightarrow> ''Section '' @ str_nat (i + 1))"

section \<open>Lists\<close>

lemma contents_smaller: "x \<in> set (contents nd) \<Longrightarrow> size x < size nd"
proof (cases nd)
  case (Tag n c a cs)
  assume "x \<in> set (contents nd)"
  with Tag have "x \<in> set cs" by simp
  then have "size x \<le> size_list size cs" by (rule size_list_estimation') simp
  with Tag show ?thesis by simp
next
  case (NavigableString s)
  assume "x \<in> set (contents nd)"
  with NavigableString show ?thesis by simp
qed

lemma find_all_direct_smaller: "x \<in> set (find_all_direct P nd) \<Longrightarrow> size x < size nd"
  by (rule contents_smaller) (simp add: find_all_direct_def)

lemma find_direct_smaller: "find_direct P nd = Some x \<Longrightarrow> size x < size nd"
  by (rule find_all_direct_smaller [of x P])
     (auto simp: find_direct_def split: list.splits)

fun li_text_parts :: "node list \<Rightarrow> string list" where
  \<comment> \<open>the loop over the children of a list item: it stops (\<^verbatim>\<open>break\<close>) at the first
      child that is a \<^verbatim>\<open>ul\<close>, and collects the cleaned text of every child before it
      that has any. A text child reaches \<^verbatim>\<open>clean_text\<close> through either of the two
      later branches, with the same result.\<close>
  "li_text_parts [] = []"
| "li_text_parts (Tag n c a cs # rest) =
     (if n = ''ul'' then []
      else (let t = clean_text (get_text (Tag n c a cs)) in if t \<noteq> [] then [t] else [])
           @ li_text_parts rest)"
| "li_text_parts (NavigableString s # rest) =
     (let t = clean_text s in if t \<noteq> [] then [t] else []) @ li_text_parts rest"

definition li_text :: "node \<Rightarrow> string" where
  \<comment> \<open>\<^verbatim>\<open>" ".join(li_text_parts).strip()\<close>\<close>
  "li_text li = strip (join '' '' (li_text_parts (contents li)))"

function process_list :: "node \<Rightarrow> string list" where
  "process_list (Tag n c a cs) =
     concat (map
       (\<lambda>li. [if li_text li \<noteq> [] then ''<li>'' @ li_text li else ''<li>'']
             @ (case find_direct (named [''ul'']) li of
                  None \<Rightarrow> []
                | Some nested_ul \<Rightarrow> [''<ul>''] @ process_list nested_ul @ [''</ul>''])
             @ [''</li>''])
       (find_all_direct (named [''li'']) (Tag n c a cs)))"
| "process_list (NavigableString s) = []"
  by pat_completeness auto
termination
proof (relation "measure size")
  show "wf (measure size)" by simp
next
  fix n c a cs li nested_ul
  assume "li \<in> set (find_all_direct (named [''li'']) (Tag n c a cs))"
    and "find_direct (named [''ul'']) li = Some nested_ul"
  then have "size li < size (Tag n c a cs)" and "size nested_ul < size li"
    by (auto dest: find_all_direct_smaller find_direct_smaller)
  then show "(nested_ul, Tag n c a cs) \<in> measure size" by simp
qed

text \<open>
  \<open>process_list\<close> is only ever called on a \<^verbatim>\<open>ul\<close> tag; the equation for a text node
  is there for totality.
\<close>

section \<open>Tables\<close>

definition bullet :: string where
  \<comment> \<open>U+2022, as UTF-8\<close>
  "bullet = [CHR 0xE2, CHR 0x80, CHR 0xA2]"

definition white_bullet :: string where
  \<comment> \<open>U+25E6, as UTF-8\<close>
  "white_bullet = [CHR 0xE2, CHR 0x97, CHR 0xA6]"

function process_list_item :: "node \<Rightarrow> string \<Rightarrow> string \<Rightarrow> string list" where
  \<comment> \<open>the local function of \<^verbatim>\<open>format_table_with_bullets\<close>; it returns the lines it
      appends to \<^verbatim>\<open>bullet_content\<close>\<close>
  "process_list_item (Tag n c a cs) bullet_char indent =
     (if li_text (Tag n c a cs) \<noteq> []
      then [indent @ bullet_char @ '' '' @ li_text (Tag n c a cs)] else [])
     @ (case find_direct (named [''ul'']) (Tag n c a cs) of
          None \<Rightarrow> []
        | Some nested_ul \<Rightarrow>
            concat (map (\<lambda>nested_li.
                      process_list_item nested_li white_bullet ''&nbsp;&nbsp;&nbsp;&nbsp;'')
                    (find_all_direct (named [''li'']) nested_ul)))"
| "process_list_item (NavigableString s) bullet_char indent = []"
  by pat_completeness auto
termination
proof (relation "measure (\<lambda>(nd, b, i). size nd)")
  show "wf (measure (\<lambda>(nd, b, i). size nd))" by simp
next
  fix n c a cs and bullet_char indent :: string and nested_ul nested_li
  assume "find_direct (named [''ul'']) (Tag n c a cs) = Some nested_ul"
    and "nested_li \<in> set (find_all_direct (named [''li'']) nested_ul)"
  then have "size nested_ul < size (Tag n c a cs)" and "size nested_li < size nested_ul"
    by (auto dest: find_all_direct_smaller find_direct_smaller)
  then show "((nested_li, white_bullet, ''&nbsp;&nbsp;&nbsp;&nbsp;''),
              (Tag n c a cs, bullet_char, indent)) \<in> measure (\<lambda>(nd, b, i). size nd)"
    by simp
qed

definition escape_pipes :: "string \<Rightarrow> string" where
  \<comment> \<open>\<^verbatim>\<open>.replace('|', '\\|')\<close>: a backslash before every pipe\<close>
  "escape_pipes s = str_replace ''|'' [CHR 0x5C, CHR ''|''] s"

definition cell_text :: "node \<Rightarrow> string" where
  \<comment> \<open>the text of one body cell \<^verbatim>\<open>td\<close>\<close>
  "cell_text td =
     (let top_level_lists = find_all_direct (named [''ul'']) td in
      if top_level_lists \<noteq> [] then
        escape_pipes (join ''<br/>''
          (concat (map (\<lambda>ul. concat (map (\<lambda>li. process_list_item li bullet [])
                                        (find_all_direct (named [''li'']) ul)))
                    top_level_lists)))
      else
        (let t = clean_text (get_text td) in
         if t \<noteq> [] then escape_pipes (str_replace [CHR 0x0A] '' '' t) else []))"

definition row_line :: "string list \<Rightarrow> string" where
  \<comment> \<open>\<^verbatim>\<open>"| " + " | ".join(cells) + " |"\<close>\<close>
  "row_line cells = ''| '' @ join '' | '' cells @ '' |''"

definition header_rows :: "node \<Rightarrow> string list" where
  \<comment> \<open>the rows appended under \<^verbatim>\<open># Extract headers\<close>: the header line and the
      separator line, or nothing\<close>
  "header_rows table_element =
     (case soup_find (named [''thead'']) table_element of
        None \<Rightarrow> []
      | Some thead \<Rightarrow>
          (case soup_find (named [''tr'']) thead of
             None \<Rightarrow> []
           | Some header_row \<Rightarrow>
               (let headers = map (\<lambda>th. let header_text = clean_text (get_text th)
                                         in if header_text \<noteq> [] then header_text else '' '')
                                (soup_find_all (named [''th'', ''td'']) header_row)
                in if headers \<noteq> []
                   then [row_line headers, row_line (replicate (length headers) ''---'')]
                   else [])))"

definition body_row :: "node \<Rightarrow> string list" where
  \<comment> \<open>what one \<^verbatim>\<open>tr\<close> of the body appends to \<^verbatim>\<open>rows\<close>\<close>
  "body_row tr =
     (let cells = map cell_text (soup_find_all (named [''td'', ''th'']) tr)
      in if cells \<noteq> [] then [row_line cells] else [])"

definition body_rows :: "node \<Rightarrow> string list" where
  \<comment> \<open>the rows appended under \<^verbatim>\<open># Extract body rows\<close>\<close>
  "body_rows table_element =
     (case soup_find (named [''tbody'']) table_element of
        None \<Rightarrow> []
      | Some tbody \<Rightarrow> concat (map body_row (soup_find_all (named [''tr'']) tbody)))"

definition row_fields :: "string \<Rightarrow> string list" where
  \<comment> \<open>\<^verbatim>\<open>row.split('|')[1:-1]\<close>\<close>
  "row_fields row = inner_fields (split_on (CHR ''|'') row)"

definition render_table :: "string list \<Rightarrow> string" where
  \<comment> \<open>the return expression of \<^verbatim>\<open>format_table_with_bullets\<close> for a non-empty
      \<^verbatim>\<open>rows\<close>: \<^verbatim>\<open>rows[0]\<close> fills the head, \<^verbatim>\<open>rows[2:]\<close> the body\<close>
  "render_table rows =
     [CHR 0x0A] @ ''<table>'' @ [CHR 0x0A] @ ''<thead>'' @ [CHR 0x0A] @ ''<tr>'' @ [CHR 0x0A]
     @ join [CHR 0x0A] (map (\<lambda>h. ''<th>'' @ h @ ''</th>'') (row_fields (hd rows)))
     @ [CHR 0x0A] @ ''</tr>'' @ [CHR 0x0A] @ ''</thead>'' @ [CHR 0x0A] @ ''<tbody>'' @ [CHR 0x0A]
     @ join [CHR 0x0A]
         (map (\<lambda>row. ''<tr>'' @ [CHR 0x0A]
                      @ join [CHR 0x0A] (map (\<lambda>cell. ''<td>'' @ cell @ ''</td>'') (row_fields row))
                      @ [CHR 0x0A] @ ''</tr>'')
              (drop 2 rows))
     @ [CHR 0x0A] @ ''</tbody>'' @ [CHR 0x0A] @ ''</table>'' @ [CHR 0x0A]"

definition format_table_with_bullets :: "node \<Rightarrow> string" where
  "format_table_with_bullets table_element =
     (let rows = header_rows table_element @ body_rows table_element
      in if rows \<noteq> [] then render_table rows else [])"

section \<open>Images\<close>

definition extract_image_info :: "node \<Rightarrow> string" where
  "extract_image_info img_span =
     (case soup_find (named [''img'']) img_span of
        None \<Rightarrow> []
      | Some img_element \<Rightarrow>
          (let image_url = get_attr img_element ''src'' in
           if image_url = [] then []
           else
             (let image_url =
                    (if startswith image_url ''//'' then ''https:'' @ image_url
                     else if startswith image_url ''/'' then ''https://next.amboss.com'' @ image_url
                     else image_url);
                  caption =
                    (if get_attr img_element ''title'' \<noteq> [] then get_attr img_element ''title''
                     else (case soup_find (\<lambda>x. named [''span''] x \<and>
                                   class_matches (\<lambda>c. c = ''thumbnail__image__title'') x) img_span of
                             None \<Rightarrow> []
                           | Some title_span \<Rightarrow> get_text title_span));
                  caption = (if caption = [] then ''Medical Image'' else caption)
              in ''<div style='' @ [CHR 0x22] @ ''text-align: center; margin: 20px 0;'' @ [CHR 0x22] @ ''><img src='' @ [CHR 0x22]
                 @ image_url @ [CHR 0x22] @ '' alt='' @ [CHR 0x22] @ caption
                 @ [CHR 0x22] @ '' width='' @ [CHR 0x22] @ ''400'' @ [CHR 0x22] @ '' style='' @ [CHR 0x22] @ ''max-width: 100%; height: auto;'' @ [CHR 0x22] @ ''><p><em>''
                 @ caption @ ''</em></p></div>'')))"

section \<open>The content of a section\<close>

definition extract_generic_content :: "node \<Rightarrow> string" where
  "extract_generic_content element =
     (if named [''div''] element \<and>
         (\<exists>cls \<in> set [''table-wrapper'', ''paragraph'', ''merke'', ''cave'', ''content-box''].
            cls \<in> set (get_class element))
      then []
      else if find_all_direct (named [''ul'', ''table'', ''div'']) element \<noteq> [] then []
      else
        (let text_content = clean_text (get_text element) in
         if text_content \<noteq> [] \<and> 10 < length text_content then
           (if 20 < length text_content then ''<p>'' @ text_content @ ''</p>'' else [])
         else []))"

datatype rule =
    NoTag | Heading | TableWrapper | ListTag | ParagraphDiv | ContentBox | ParagraphTag | Generic

fun dispatch_rule :: "node \<Rightarrow> rule" where
  \<comment> \<open>the \<^verbatim>\<open>if\<close>/\<^verbatim>\<open>elif\<close> chain over one child of the content node, first match wins;
      \<open>NoTag\<close> is a child that is text or has no name, which the loop passes over\<close>
  "dispatch_rule (NavigableString s) = NoTag"
| "dispatch_rule (Tag n c a cs) =
     (if n = [] then NoTag
      else if n = ''h3'' then Heading
      else if n = ''div'' \<and> ''table-wrapper'' \<in> set (get_class (Tag n c a cs)) then TableWrapper
      else if n = ''ul'' then ListTag
      else if n = ''div'' \<and> ''paragraph'' \<in> set (get_class (Tag n c a cs)) then ParagraphDiv
      else if n = ''div'' \<and>
              (\<exists>cls \<in> set [''merke'', ''cave'', ''content-box'']. cls \<in> set (get_class (Tag n c a cs)))
           then ContentBox
      else if n = ''p'' then ParagraphTag
      else Generic)"

definition content_box :: "node \<Rightarrow> string list" where
  "content_box child =
     (let classes = get_class child; content_text = clean_text (get_text child) in
      if content_text \<noteq> [] then
        (if ''merke'' \<in> set classes \<or> ''green'' \<in> set classes then
           [''<div class='' @ [CHR 0x22] @ ''content-box note'' @ [CHR 0x22] @ ''>'' @ [CHR 0xF0, CHR 0x9F, CHR 0x92, CHR 0xA1] @ '' **Note:** '' @ content_text @ ''</div>'']
         else if ''cave'' \<in> set classes \<or> ''red'' \<in> set classes then
           [''<div class='' @ [CHR 0x22] @ ''content-box warning'' @ [CHR 0x22] @ ''>'' @ [CHR 0xE2, CHR 0x9A, CHR 0xA0, CHR 0xEF, CHR 0xB8, CHR 0x8F] @ '' **Warning:** '' @ content_text @ ''</div>'']
         else if ''blue'' \<in> set classes then
           [''<div class='' @ [CHR 0x22] @ ''content-box tip'' @ [CHR 0x22] @ ''>'' @ [CHR 0xF0, CHR 0x9F, CHR 0x93, CHR 0x9D] @ '' **Tip:** '' @ content_text @ ''</div>'']
         else
           [''<div class='' @ [CHR 0x22] @ ''content-box note'' @ [CHR 0x22] @ ''>'' @ [CHR 0xF0, CHR 0x9F, CHR 0x92, CHR 0xA1] @ '' **Note:** '' @ content_text @ ''</div>''])
      else [])"

definition child_parts :: "node \<Rightarrow> string list" where
  \<comment> \<open>what one child appends to \<^verbatim>\<open>content_parts\<close>\<close>
  "child_parts child =
     (case dispatch_rule child of
        NoTag \<Rightarrow> []
      | Heading \<Rightarrow>
          (let t = clean_text (get_text child) in
           if t \<noteq> [] then [''<h3>'' @ t @ ''</h3>''] else [])
      | TableWrapper \<Rightarrow>
          (case soup_find (named [''table'']) child of
             None \<Rightarrow> []
           | Some table \<Rightarrow>
               (let table_content = format_table_with_bullets table in
                if table_content \<noteq> [] then [table_content] else []))
      | ListTag \<Rightarrow>
          (let list_content = process_list child in
           if list_content \<noteq> [] then [''<ul>''] @ list_content @ [''</ul>''] else [])
      | ParagraphDiv \<Rightarrow>
          (let images = soup_find_all (\<lambda>x. named [''span''] x \<and>
                            class_matches (\<lambda>c. c = ''thumbnail__image'') x) child in
           concat (map (\<lambda>img. let img_content = extract_image_info img in
                          if img_content \<noteq> []
                          then [''<div class='' @ [CHR 0x22] @ ''image-container'' @ [CHR 0x22] @ ''>'', img_content, ''</div>'']
                          else []) images)
           @ (if images = [] then
                (let text_content = clean_text (get_text child) in
                 if text_content \<noteq> [] then [''<p>'' @ text_content @ ''</p>''] else [])
              else []))
      | ContentBox \<Rightarrow> content_box child
      | ParagraphTag \<Rightarrow>
          (let text_content = clean_text (get_text child) in
           if text_content \<noteq> [] then [''<p>'' @ text_content @ ''</p>''] else [])
      | Generic \<Rightarrow>
          (let processed_content = extract_generic_content child in
           if processed_content \<noteq> [] then [processed_content] else []))"

definition extract_content_from_section :: "node \<Rightarrow> string" where
  "extract_content_from_section section =
     (case or_else
             (soup_find (\<lambda>x. named [''div''] x \<and>
                  has_attr ''data-e2e-test-id'' ''section-content-is-shown'' x) section)
             (soup_find (\<lambda>x. named [''div''] x \<and>
                  has_attr ''data-e2e-test-id'' ''section-content-is-hidden'' x) section) of
        None \<Rightarrow> []
      | Some content_container \<Rightarrow>
          (let base_content =
                 (case soup_find (\<lambda>x. named [''div''] x \<and>
                          class_matches (\<lambda>c. contains ''baseStyles'' c) x) content_container of
                    None \<Rightarrow> content_container
                  | Some b \<Rightarrow> b)
           in join [CHR 0x0A] (concat (map child_parts (contents base_content)))))"

section \<open>The sections of a page\<close>

record section_data =
  title :: string
  content :: string

text \<open>
  The loop of \<^verbatim>\<open>extract_sections\<close>, over the section nodes with their indices. Beside
  the list \<^verbatim>\<open>sections\<close> it builds, the model returns the calls it makes to
  \<^verbatim>\<open>extract_content_from_section\<close>, as the list of the (index, node) pairs they are
  made on, in order: a section left by \<^verbatim>\<open>continue\<close> makes none.
\<close>

fun sections_loop :: "nat \<Rightarrow> node list \<Rightarrow> section_data list \<times> (nat \<times> node) list" where
  "sections_loop i [] = ([], [])"
| "sections_loop i (section # rest) =
     (let t = resolved_title i section in
      if contains ''references'' (lower t) then sections_loop (Suc i) rest
      else
        (let c = extract_content_from_section section;
             (sections, calls) = sections_loop (Suc i) rest
         in if c \<noteq> []
            then (\<lparr>title = t, content = c\<rparr> # sections, (i, section) # calls)
            else (sections, (i, section) # calls)))"

definition section_elements :: "node \<Rightarrow> node list" where
  \<comment> \<open>\<^verbatim>\<open>soup.find_all('section', {'data-e2e-test-id': 'section-with-header'})\<close>\<close>
  "section_elements soup =
     soup_find_all (\<lambda>x. named [''section''] x \<and>
                        has_attr ''data-e2e-test-id'' ''section-with-header'' x) soup"

definition extract_sections :: "node \<Rightarrow> section_data list \<times> string" where
  "extract_sections soup =
     (fst (sections_loop 0 (section_elements soup)), extract_article_title_from_soup soup)"

definition content_calls :: "node \<Rightarrow> (nat \<times> node) list" where
  \<comment> \<open>the calls to \<^verbatim>\<open>extract_content_from_section\<close> made during
      \<^verbatim>\<open>extract_sections\<close>\<close>
  "content_calls soup = snd (sections_loop 0 (section_elements soup))"

section \<open>Rendering\<close>

datatype error = ValueError string

definition truthy :: "string option \<Rightarrow> bool" where
  \<comment> \<open>\<^verbatim>\<open>if article_title:\<close> \<^verbatim>\<open>None\<close> and the empty string are both false\<close>
  "truthy x \<longleftrightarrow> (case x of None \<Rightarrow> False | Some v \<Rightarrow> v \<noteq> [])"

fun format_text_sections :: "nat \<Rightarrow> section_data list \<Rightarrow> string list" where
  \<comment> \<open>the loop of \<^verbatim>\<open>_format_text\<close>, \<^verbatim>\<open>enumerate(sections, 1)\<close>\<close>
  "format_text_sections i [] = []"
| "format_text_sections i (section # rest) =
     [''=== Section '' @ str_nat i @ '': '' @ title section @ '' ==='', content section, []]
     @ format_text_sections (Suc i) rest"

definition format_text :: "section_data list \<Rightarrow> string option \<Rightarrow> string" where
  \<comment> \<open>\<^verbatim>\<open>_format_text\<close>\<close>
  "format_text sections article_title =
     join [CHR 0x0A]
       ((if truthy article_title then [''# '' @ the article_title, []] else [])
        @ format_text_sections 1 sections)"

definition format_markdown :: "section_data list \<Rightarrow> string option \<Rightarrow> string" where
  \<comment> \<open>\<^verbatim>\<open>_format_markdown\<close>\<close>
  "format_markdown sections article_title =
     join [CHR 0x0A]
       ((if truthy article_title then [''# '' @ the article_title, []] else [])
        @ concat (map (\<lambda>section. [''## '' @ title section, [], content section, []]) sections))"

definition html_head_before_title :: "string list" where
  \<comment> \<open>the lines of \<^verbatim>\<open>html_parts\<close> above the \<^verbatim>\<open>title\<close> element\<close>
  "html_head_before_title =
    [''<!DOCTYPE html>'',
     ''<html lang='' @ [CHR 0x22] @ ''en'' @ [CHR 0x22] @ ''>'',
     ''<head>'',
     ''    <meta charset='' @ [CHR 0x22] @ ''UTF-8'' @ [CHR 0x22] @ ''>'',
     ''    <meta name='' @ [CHR 0x22] @ ''viewport'' @ [CHR 0x22] @ '' content='' @ [CHR 0x22] @ ''width=device-width, initial-scale=1.0'' @ [CHR 0x22] @ ''>'']"

definition html_head_after_title :: "string list" where
  \<comment> \<open>the lines of \<^verbatim>\<open>html_parts\<close> below it: the two style sheets and the opening of the body\<close>
  "html_head_after_title =
    [''    <style>'',
     ''        /* Print-friendly styles */'',
     ''        @media print {'',
     ''            body { '',
     ''                font-family: '' @ [CHR 0x27] @ ''Times New Roman'' @ [CHR 0x27] @ '', serif;'',
     ''                font-size: 12pt;'',
     ''                line-height: 1.4;'',
     ''                margin: 0.5in;'',
     ''                color: black;'',
     ''            }'',
     ''            '',
     ''            /* Section-level styling */'',
     ''            .section {'',
     ''                margin-bottom: 20pt;'',
     ''            }'',
     ''            '',
     ''            /* Main section titles (h2) */'',
     ''            .section-title {'',
     ''                font-size: 16pt;'',
     ''                font-weight: bold;'',
     ''                margin-top: 24pt;'',
     ''                margin-bottom: 12pt;'',
     ''                border-bottom: 2pt solid #333;'',
     ''                padding-bottom: 6pt;'',
     ''            }'',
     ''            '',
     ''            /* Subsection titles (h3) */'',
     ''            h3 {'',
     ''                font-size: 14pt;'',
     ''                font-weight: bold;'',
     ''                margin-top: 18pt;'',
     ''                margin-bottom: 8pt;'',
     ''            }'',
     ''            '',
     ''            /* Sub-subsection titles (h4) */'',
     ''            h4 {'',
     ''                font-size: 13pt;'',
     ''                font-weight: bold;'',
     ''                margin-top: 14pt;'',
     ''                margin-bottom: 6pt;'',
     ''            }'',
     ''            '',
     ''            /* Content boxes */'',
     ''            .content-box {'',
     ''                border: 1pt solid #666;'',
     ''                padding: 8pt;'',
     ''                margin: 12pt 0;'',
     ''                background-color: #f9f9f9;'',
     ''            }'',
     ''            .note { border-left: 4pt solid #4CAF50; }'',
     ''            .warning { border-left: 4pt solid #f44336; }'',
     ''            .tip { border-left: 4pt solid #2196F3; }'',
     ''            .important { border-left: 4pt solid #FF9800; }'',
     ''            '',
     ''            /* Tables */'',
     ''            table {'',
     ''                border-collapse: collapse;'',
     ''                width: 100%;'',
     ''                margin: 12pt 0;'',
     ''            }'',
     ''            th, td {'',
     ''                border: 1pt solid #333;'',
     ''                padding: 6pt;'',
     ''                text-align: left;'',
     ''                vertical-align: top;'',
     ''            }'',
     ''            th {'',
     ''                background-color: #f0f0f0;'',
     ''                font-weight: bold;'',
     ''            }'',
     ''            '',
     ''            /* Images */'',
     ''            img {'',
     ''                max-width: 100%;'',
     ''                height: auto;'',
     ''                display: block;'',
     ''                margin: 12pt auto;'',
     ''            }'',
     ''            '',
     ''            /* Image containers */'',
     ''            .image-container {'',
     ''                margin: 12pt 0;'',
     ''            }'',
     ''            '',
     ''            /* Lists */'',
     ''            ul, ol {'',
     ''                margin: 8pt 0;'',
     ''                padding-left: 20pt;'',
     ''            }'',
     ''            '',
     ''            /* Individual list items */'',
     ''            li {'',
     ''                margin: 4pt 0;'',
     ''            }'',
     ''            '',
     ''            /* Nested lists */'',
     ''            ul ul, ol ol, ul ol, ol ul {'',
     ''                margin: 4pt 0;'',
     ''            }'',
     ''            '',
     ''            /* Paragraphs */'',
     ''            p {'',
     ''                margin: 8pt 0;'',
     ''            }'',
     ''        }'',
     [],
     ''        /* Screen styles */'',
     ''        @media screen {'',
     ''            body {'',
     ''                font-family: -apple-system, BlinkMacSystemFont, '' @ [CHR 0x27] @ ''Segoe UI'' @ [CHR 0x27] @ '', Roboto, sans-serif;'',
     ''                max-width: 800px;'',
     ''                margin: 0 auto;'',
     ''                padding: 20px;'',
     ''                line-height: 1.6;'',
     ''                background-color: #fff;'',
     ''            }'',
     ''            .section {'',
     ''                margin-bottom: 30px;'',
     ''                padding: 20px;'',
     ''                border-radius: 8px;'',
     ''                box-shadow: 0 2px 4px rgba(0,0,0,0.1);'',
     ''            }'',
     ''            .section-title {'',
     ''                font-size: 24px;'',
     ''                font-weight: bold;'',
     ''                margin-bottom: 15px;'',
     ''                color: #333;'',
     ''                border-bottom: 2px solid #007acc;'',
     ''                padding-bottom: 8px;'',
     ''            }'',
     ''            .content-box {'',
     ''                border-radius: 6px;'',
     ''                padding: 15px;'',
     ''                margin: 15px 0;'',
     ''            }'',
     ''            .note { '',
     ''                background-color: #e8f5e8; '',
     ''                border-left: 4px solid #4CAF50; '',
     ''            }'',
     ''            .warning { '',
     ''                background-color: #ffeaea; '',
     ''                border-left: 4px solid #f44336; '',
     ''            }'',
     ''            .tip { '',
     ''                background-color: #e3f2fd; '',
     ''                border-left: 4px solid #2196F3; '',
     ''            }'',
     ''            .important { '',
     ''                background-color: #fff3e0; '',
     ''                border-left: 4px solid #FF9800; '',
     ''            }'',
     [],
     ''            table {'',
     ''                border-collapse: collapse;'',
     ''                width: 100%;'',
     ''                margin: 15px 0;'',
     ''                box-shadow: 0 1px 3px rgba(0,0,0,0.1);'',
     ''            }'',
     ''            th, td {'',
     ''                border: 1px solid #ddd;'',
     ''                padding: 12px;'',
     ''                text-align: left;'',
     ''            }'',
     ''            th {'',
     ''                background-color: #f8f9fa;'',
     ''                font-weight: 600;'',
     ''            }'',
     ''            tr:nth-child(even) {'',
     ''                background-color: #f8f9fa;'',
     ''            }'',
     ''        }'',
     ''</style>'',
     ''</head>'',
     ''<body>'']"

fun format_html_sections :: "nat \<Rightarrow> section_data list \<Rightarrow> string list" where
  \<comment> \<open>the loop of \<^verbatim>\<open>_format_html\<close>, \<^verbatim>\<open>enumerate(sections, 1)\<close>\<close>
  "format_html_sections i [] = []"
| "format_html_sections i (section # rest) =
     [''<div class='' @ [CHR 0x22] @ ''section'' @ [CHR 0x22] @ '' id='' @ [CHR 0x22] @ ''section-'' @ str_nat i @ [CHR 0x22] @ ''>'',
      ''<h2 class='' @ [CHR 0x22] @ ''section-title'' @ [CHR 0x22] @ ''>'' @ title section @ ''</h2>'',
      content section,
      ''</div>'']
     @ format_html_sections (Suc i) rest"

definition format_html :: "section_data list \<Rightarrow> string option \<Rightarrow> string" where
  \<comment> \<open>\<^verbatim>\<open>_format_html\<close>\<close>
  "format_html sections article_title =
     (let page_title = (if truthy article_title then the article_title else ''AMBOSS Content'') in
      join [CHR 0x0A]
        (html_head_before_title
         @ [''    <title>'' @ page_title @ ''</title>'']
         @ html_head_after_title
         @ (if truthy article_title then
              [''<div class='' @ [CHR 0x22] @ ''main-title-container'' @ [CHR 0x22] @ '' style='' @ [CHR 0x22] @ ''text-align: center; margin-bottom: 30px; border-bottom: 3px solid #007acc; padding-bottom: 15px;'' @ [CHR 0x22] @ ''>'',
               ''<h1 style='' @ [CHR 0x22] @ ''font-size: 28pt; color: #333; margin: 0;'' @ [CHR 0x22] @ ''>'' @ the article_title @ ''</h1>'',
               ''</div>'']
            else [])
         @ format_html_sections 1 sections
         @ [''</body>'', ''</html>'']))"

definition format_output :: "section_data list \<Rightarrow> string \<Rightarrow> string option \<Rightarrow> error + string" where
  "format_output sections output_format article_title =
     (if output_format = ''text'' then Inr (format_text sections article_title)
      else if output_format = ''markdown'' then Inr (format_markdown sections article_title)
      else if output_format = ''html'' then Inr (format_html sections article_title)
      else Inl (ValueError (''Unsupported output format: '' @ output_format)))"

section \<open>The list model of the specification\<close>

text \<open>
  The specification describes a list as a tree of items: each item has a text and,
  when a list is nested directly in it, the items of that list as children. These
  definitions follow the specification's words, to be compared with \<open>process_list\<close>:
  \<open>item_text\<close> is the space-joined text of the item's content before the first
  directly nested list, \<open>list_items\<close> builds the tree, \<open>flatten_items\<close> is its
  depth-first flattening into the lines that \<open>process_list\<close> returns. The children are
  optional, so that a nested list without items differs from no nested list.
\<close>

datatype list_item = ListItem string "list_item list option"

definition item_text :: "node \<Rightarrow> string" where
  "item_text li =
     strip (join '' ''
       (filter (\<lambda>t. t \<noteq> [])
          (map (\<lambda>x. clean_text (get_text x))
             (takeWhile (\<lambda>x. \<not> named [''ul''] x) (contents li)))))"

function list_items :: "node \<Rightarrow> list_item list" where
  "list_items (Tag n c a cs) =
     map (\<lambda>li. ListItem (item_text li)
                 (case find_direct (named [''ul'']) li of
                    None \<Rightarrow> None
                  | Some nested_ul \<Rightarrow> Some (list_items nested_ul)))
       (find_all_direct (named [''li'']) (Tag n c a cs))"
| "list_items (NavigableString s) = []"
  by pat_completeness auto
termination
proof (relation "measure size")
  show "wf (measure size)" by simp
next
  fix n c a cs li nested_ul
  assume "li \<in> set (find_all_direct (named [''li'']) (Tag n c a cs))"
    and "find_direct (named [''ul'']) li = Some nested_ul"
  then have "size li < size (Tag n c a cs)" and "size nested_ul < size li"
    by (auto dest: find_all_direct_smaller find_direct_smaller)
  then show "(nested_ul, Tag n c a cs) \<in> measure size" by simp
qed

fun flatten_item :: "list_item \<Rightarrow> string list" where
  "flatten_item (ListItem t children) =
     [''<li>'' @ t]
     @ (case children of
          None \<Rightarrow> []
        | Some items \<Rightarrow> [''<ul>''] @ concat (map flatten_item items) @ [''</ul>''])
     @ [''</li>'']"

definition flatten_items :: "list_item list \<Rightarrow> string list" where
  "flatten_items items = concat (map flatten_item items)"

definition opens_item :: "string \<Rightarrow> bool" where
  \<comment> \<open>the line that opens an item; the three other kinds of line do not start so\<close>
  "opens_item tok \<longleftrightarrow> startswith tok ''<li>''"

definition closing :: "string list \<Rightarrow> bool" where
  \<comment> \<open>what may follow the flattening of a list of items: nothing, or a line that
      opens no item\<close>
  "closing r \<longleftrightarrow> (case r of [] \<Rightarrow> True | tok # _ \<Rightarrow> \<not> opens_item tok)"

section \<open>Example inputs\<close>

definition references_section :: node where
  "references_section =
     Tag ''section'' None [(''data-e2e-test-id'', ''section-with-header'')]
       [Tag ''h3'' None [] [NavigableString ''References''],
        Tag ''div'' None [(''data-e2e-test-id'', ''section-content-is-shown'')]
          [Tag ''p'' None [] [NavigableString ''Smith et al.'']]]"

definition features_section :: node where
  "features_section =
     Tag ''section'' None [(''data-e2e-test-id'', ''section-with-header'')]
       [Tag ''h3'' None [] [NavigableString ''Clinical Features''],
        Tag ''div'' None [(''data-e2e-test-id'', ''section-content-is-shown'')]
          [Tag ''p'' None [] [NavigableString ''Fever and cough.'']]]"

definition example_page :: node where
  "example_page = Tag ''[document]'' None [] [references_section, features_section]"

definition empty_header_page :: node where
  \<comment> \<open>an article header whose heading has no text, followed by a top-level heading\<close>
  "empty_header_page =
     Tag ''[document]'' None []
       [Tag ''div'' None [(''data-e2e-test-id'', ''articleHeader'')] [Tag ''h2'' None [] []],
        Tag ''h1'' None [] [NavigableString ''Asthma'']]"

definition body_only_table :: node where
  \<comment> \<open>a table of three body rows and no \<^verbatim>\<open>thead\<close>\<close>
  "body_only_table =
     Tag ''table'' None []
       [Tag ''tbody'' None []
          [Tag ''tr'' None [] [Tag ''td'' None [] [NavigableString ''r1'']],
           Tag ''tr'' None [] [Tag ''td'' None [] [NavigableString ''r2'']],
           Tag ''tr'' None [] [Tag ''td'' None [] [NavigableString ''r3'']]]]"

definition pipe_row :: node where
  \<comment> \<open>a body row of two cells, the first with a pipe in its text\<close>
  "pipe_row =
     Tag ''tr'' None []
       [Tag ''td'' None [] [NavigableString ''a|b''], Tag ''td'' None [] [NavigableString ''c'']]"

definition pipe_table :: node where
  "pipe_table =
     Tag ''table'' None []
       [Tag ''thead'' None []
          [Tag ''tr'' None []
             [Tag ''th'' None [] [NavigableString ''H1''],
              Tag ''th'' None [] [NavigableString ''H2'']]],
        Tag ''tbody'' None [] [pipe_row]]"

definition example_list :: node where
  \<comment> \<open>two items; the first has text, a nested list, more text and a second nested list\<close>
  "example_list =
     Tag ''ul'' None []
       [Tag ''li'' None []
          [NavigableString ''a '', Tag ''b'' None [] [NavigableString ''bold''],
           Tag ''ul'' None [] [Tag ''li'' None [] [NavigableString ''a1'']],
           NavigableString ''after'',
           Tag ''ul'' None [] [Tag ''li'' None [] [NavigableString ''a2'']]],
        Tag ''li'' None [] [NavigableString ''b'']]"

definition nested_item_children :: "node list" where
  \<comment> \<open>what follows the first nested list in the first item of \<open>example_list\<close>\<close>
  "nested_item_children =
     [NavigableString ''after'',
      Tag ''ul'' None [] [Tag ''li'' None [] [NavigableString ''a2'']]]"

definition button_section :: node where
  \<comment> \<open>a section without any \<^verbatim>\<open>h3\<close>, whose title is on a header button\<close>
  "button_section =
     Tag ''section'' None [(''data-e2e-test-id'', ''section-with-header'')]
       [Tag ''button'' (Some [''header-button'']) [] [NavigableString ''Overview''],
        Tag ''div'' None [(''data-e2e-test-id'', ''section-content-is-shown'')]
          [Tag ''p'' None [] [NavigableString ''Asthma is common.'']]]"

definition button_page :: node where
  "button_page = Tag ''[document]'' None [] [features_section, button_section]"

definition example_image :: node where
  \<comment> \<open>an image with a path-absolute URL and no caption source\<close>
  "example_image =
     Tag ''span'' (Some [''thumbnail__image'']) []
       [Tag ''img'' None [(''src'', ''/img/x.png'')] []]"

definition titled_image :: node where
  \<comment> \<open>a protocol-relative URL and a \<^verbatim>\<open>title\<close> attribute\<close>
  "titled_image =
     Tag ''span'' (Some [''thumbnail__image'']) []
       [Tag ''img'' None [(''src'', ''//cdn.amboss.com/x.png''), (''title'', ''Chest X-ray'')] []]"

definition captioned_image :: node where
  \<comment> \<open>a full URL, no \<^verbatim>\<open>title\<close> attribute, a nested caption element\<close>
  "captioned_image =
     Tag ''span'' (Some [''thumbnail__image'']) []
       [Tag ''img'' None [(''src'', ''https://media.amboss.com/y.png'')] [],
        Tag ''span'' (Some [''thumbnail__image__title'']) [] [NavigableString ''Figure 1'']]"

definition sourceless_image :: node where
  "sourceless_image =
     Tag ''span'' (Some [''thumbnail__image'']) [] [Tag ''img'' None [(''alt'', ''x'')] []]"

definition plain_span :: node where
  "plain_span = Tag ''span'' None [] [NavigableString ''some long text over twenty chars'']"

definition wrapped_list_span :: node where
  \<comment> \<open>a \<^verbatim>\<open>span\<close> with a list below it, but not among its direct children\<close>
  "wrapped_list_span =
     Tag ''span'' None []
       [Tag ''b'' None [] [Tag ''ul'' None [] [Tag ''li'' None [] [NavigableString ''x'']]],
        NavigableString ''some long text over twenty chars'']"

section \<open>Properties of the section loop\<close>

lemma sections_loop_calls:
  "snd (sections_loop i nodes) =
     filter (\<lambda>(j, nd). \<not> contains ''references'' (lower (resolved_title j nd)))
       (enumerate i nodes)"
  by (induction nodes arbitrary: i) (simp_all add: Let_def case_prod_beta)

lemma sections_loop_sections:
  "fst (sections_loop i nodes) =
     map (\<lambda>(j, nd). \<lparr>title = resolved_title j nd, content = extract_content_from_section nd\<rparr>)
       (filter (\<lambda>(j, nd). extract_content_from_section nd \<noteq> []) (snd (sections_loop i nodes)))"
  by (induction nodes arbitrary: i) (simp_all add: Let_def case_prod_beta)

text \<open>
  \<^bold>\<open>C1.\<close> No section whose resolved title contains ``references'', letter case
  ignored, is in the list that \<^verbatim>\<open>extract_sections\<close> returns, and no call to
  \<^verbatim>\<open>extract_content_from_section\<close> is made on such a section: the loop leaves it
  before the content is looked at.
\<close>

theorem references_sections_excluded:
  "(\<forall>s \<in> set (fst (extract_sections soup)). \<not> contains ''references'' (lower (title s))) \<and>
   (\<forall>(i, section) \<in> set (enumerate 0 (section_elements soup)).
      contains ''references'' (lower (resolved_title i section))
        \<longrightarrow> (i, section) \<notin> set (content_calls soup))"
  by (auto simp: extract_sections_def content_calls_def sections_loop_sections
        sections_loop_calls)

theorem references_sections_excluded_witness:
  "fst (extract_sections example_page) =
     [\<lparr>title = ''Clinical Features'', content = ''<p>Fever and cough.</p>''\<rparr>] \<and>
   enumerate 0 (section_elements example_page) = [(0, references_section), (1, features_section)] \<and>
   contains ''references'' (lower (resolved_title 0 references_section)) \<and>
   (0, references_section) \<notin> set (content_calls example_page)"
proof -
  have e1: "fst (extract_sections example_page) =
      [\<lparr>title = ''Clinical Features'', content = ''<p>Fever and cough.</p>''\<rparr>]"
    by code_simp
  have e2: "enumerate 0 (section_elements example_page) =
      [(0, references_section), (1, features_section)]"
    by code_simp
  have e3: "contains ''references'' (lower (resolved_title 0 references_section))"
    by code_simp
  from references_sections_excluded [of example_page] e2 e3
  have "(0, references_section) \<notin> set (content_calls example_page)" by simp
  with e1 e2 e3 show ?thesis by simp
qed

text \<open>
  \<^bold>\<open>C5.\<close> \<^verbatim>\<open>format_output\<close> raises exactly when the requested format is none of
  \<^verbatim>\<open>text\<close>, \<^verbatim>\<open>markdown\<close> and \<^verbatim>\<open>html\<close>; for each of these three, and every list of
  sections, it returns a string.
\<close>

theorem format_output_raises_iff:
  "((\<exists>e. format_output sections output_format article_title = Inl e)
      \<longleftrightarrow> output_format \<notin> {''text'', ''markdown'', ''html''}) \<and>
   ((\<exists>s. format_output sections output_format article_title = Inr s)
      \<longleftrightarrow> output_format \<in> {''text'', ''markdown'', ''html''})"
  by (simp add: format_output_def)

theorem format_output_raises_iff_witness:
  "(\<exists>s. format_output [\<lparr>title = ''T'', content = ''c''\<rparr>] ''markdown'' None = Inr s) \<and>
   (\<exists>e. format_output [\<lparr>title = ''T'', content = ''c''\<rparr>] ''pdf'' None = Inl e)"
  using format_output_raises_iff [of "[\<lparr>title = ''T'', content = ''c''\<rparr>]" "''markdown''" None]
    format_output_raises_iff [of "[\<lparr>title = ''T'', content = ''c''\<rparr>]" "''pdf''" None]
  by simp

text \<open>
  \<^bold>\<open>C7.\<close> The document title is claimed to be the first non-empty result of the four
  sources in order. On a page whose article header holds a heading without text, the
  second source returns the empty string at once: the heading of the page and the
  constant are never reached.
\<close>

theorem article_title_empty_on_empty_header:
  "extract_article_title_from_soup empty_header_page = []"
  by code_simp

text \<open>
  \<^bold>\<open>C3.\<close> A table with body rows and no header cells is claimed to give no header row
  and all its body rows. The first body row is rendered as the head, the second is
  dropped, and the body starts at the third.
\<close>

theorem body_only_table_loses_rows:
  "header_rows body_only_table = [] \<and>
   body_rows body_only_table = [''| r1 |'', ''| r2 |'', ''| r3 |''] \<and>
   format_table_with_bullets body_only_table =
     [CHR 0x0A] @ ''<table>'' @ [CHR 0x0A] @ ''<thead>'' @ [CHR 0x0A] @ ''<tr>'' @ [CHR 0x0A] @ ''<th> r1 </th>'' @ [CHR 0x0A] @ ''</tr>'' @ [CHR 0x0A] @ ''</thead>'' @ [CHR 0x0A] @ ''<tbody>'' @ [CHR 0x0A] @ ''<tr>'' @ [CHR 0x0A] @ ''<td> r3 </td>'' @ [CHR 0x0A] @ ''</tr>'' @ [CHR 0x0A] @ ''</tbody>'' @ [CHR 0x0A] @ ''</table>'' @ [CHR 0x0A]"
  by code_simp

text \<open>
  \<^bold>\<open>C2.\<close> Splitting a rendered row on the pipe is claimed to give the original number
  of columns, through the escaping of pipes in cell text. The row of two cells
  \<^verbatim>\<open>a|b\<close> and \<^verbatim>\<open>c\<close> is rendered with the pipe escaped, and the split that builds the
  table cuts it at the escaped pipe, into three cells.
\<close>

theorem escaped_pipe_splits_row:
  "length (soup_find_all (named [''td'', ''th'']) pipe_row) = 2 \<and>
   body_row pipe_row = [''| a'' @ [CHR 0x5C] @ ''|b | c |''] \<and>
   map row_fields (body_row pipe_row) = [['' a'' @ [CHR 0x5C], ''b '', '' c '']] \<and>
   format_table_with_bullets pipe_table =
     [CHR 0x0A] @ ''<table>'' @ [CHR 0x0A] @ ''<thead>'' @ [CHR 0x0A] @ ''<tr>'' @ [CHR 0x0A] @ ''<th> H1 </th>'' @ [CHR 0x0A] @ ''<th> H2 </th>'' @ [CHR 0x0A] @ ''</tr>'' @ [CHR 0x0A] @ ''</thead>'' @ [CHR 0x0A] @ ''<tbody>'' @ [CHR 0x0A] @ ''<tr>'' @ [CHR 0x0A] @ ''<td> a'' @ [CHR 0x5C] @ ''</td>'' @ [CHR 0x0A] @ ''<td>b </td>'' @ [CHR 0x0A] @ ''<td> c </td>'' @ [CHR 0x0A] @ ''</tr>'' @ [CHR 0x0A] @ ''</tbody>'' @ [CHR 0x0A] @ ''</table>'' @ [CHR 0x0A]"
  by code_simp

section \<open>Properties of the list formatter\<close>

lemma li_text_parts_takeWhile:
  "li_text_parts cs =
     filter (\<lambda>t. t \<noteq> [])
       (map (\<lambda>x. clean_text (get_text x)) (takeWhile (\<lambda>x. \<not> named [''ul''] x) cs))"
  by (induction cs rule: li_text_parts.induct) (simp_all add: Let_def)

lemma li_text_item_text: "li_text li = item_text li"
  by (simp add: li_text_def item_text_def li_text_parts_takeWhile)

lemma process_list_flatten: "process_list ul = flatten_items (list_items ul)"
proof (induction ul rule: process_list.induct)
  case (1 n c a cs)
  show ?case
    unfolding process_list.simps list_items.simps flatten_items_def map_map
  proof (rule arg_cong [where f = concat], rule map_cong [OF refl])
    fix li
    assume li: "li \<in> set (find_all_direct (named [''li'']) (Tag n c a cs))"
    show "[if li_text li \<noteq> [] then ''<li>'' @ li_text li else ''<li>'']
            @ (case find_direct (named [''ul'']) li of
                 None \<Rightarrow> []
               | Some nested_ul \<Rightarrow> [''<ul>''] @ process_list nested_ul @ [''</ul>''])
            @ [''</li>'']
          = (flatten_item \<circ>
              (\<lambda>li. ListItem (item_text li)
                      (case find_direct (named [''ul'']) li of
                         None \<Rightarrow> None
                       | Some nested_ul \<Rightarrow> Some (list_items nested_ul)))) li"
    proof (cases "find_direct (named [''ul'']) li")
      case None
      then show ?thesis by (simp add: li_text_item_text)
    next
      case (Some nested_ul)
      with li "1.IH" have "process_list nested_ul = flatten_items (list_items nested_ul)"
        by blast
      with Some show ?thesis by (simp add: li_text_item_text flatten_items_def)
    qed
  qed
next
  case (2 s)
  show ?case by (simp add: flatten_items_def)
qed

lemma flatten_items_inj_aux:
  assumes items: "\<And>x y r1 r2. x \<in> set xs \<Longrightarrow> flatten_item x @ r1 = flatten_item y @ r2 \<Longrightarrow> x = y \<and> r1 = r2"
    and "closing r1" "closing r2"
    and "flatten_items xs @ r1 = flatten_items ys @ r2"
  shows "xs = ys \<and> r1 = r2"
  using assms
proof (induction xs arbitrary: ys)
  case Nil
  show ?case
  proof (cases ys)
    case Nil
    with Nil.prems show ?thesis by (simp add: flatten_items_def)
  next
    case (Cons y ys')
    obtain t ch where "y = ListItem t ch" by (cases y)
    with Cons Nil.prems(4) have "r1 = (''<li>'' @ t) # tl r1"
      by (simp add: flatten_items_def)
    with Nil.prems(2) have False
      by (cases r1) (auto simp: closing_def opens_item_def startswith_def)
    then show ?thesis ..
  qed
next
  case (Cons x xs)
  show ?case
  proof (cases ys)
    case Nil
    obtain t ch where "x = ListItem t ch" by (cases x)
    with Nil Cons.prems(4) have "r2 = (''<li>'' @ t) # tl r2"
      by (simp add: flatten_items_def) (metis list.sel(3))
    with Cons.prems(3) have False
      by (cases r2) (auto simp: closing_def opens_item_def startswith_def)
    then show ?thesis ..
  next
    case (Cons y ys')
    with Cons.prems(4)
    have "flatten_item x @ (flatten_items xs @ r1) = flatten_item y @ (flatten_items ys' @ r2)"
      by (simp add: flatten_items_def)
    with Cons.prems(1) [of x] have xy: "x = y" and rest: "flatten_items xs @ r1 = flatten_items ys' @ r2"
      by auto
    from Cons.IH [OF _ Cons.prems(2,3) rest] Cons.prems(1)
    have "xs = ys' \<and> r1 = r2" by auto
    with xy Cons show ?thesis by simp
  qed
qed

lemma flatten_item_inj:
  "flatten_item x @ r1 = flatten_item y @ r2 \<Longrightarrow> x = y \<and> r1 = r2"
proof (induction x arbitrary: y r1 r2)
  case (ListItem t ch)
  obtain t' ch' where y: "y = ListItem t' ch'" by (cases y)
  from ListItem.prems y have t: "t = t'" by simp
  show ?case
  proof (cases ch)
    case None
    with ListItem.prems y t show ?thesis by (cases ch') auto
  next
    case (Some cs)
    show ?thesis
    proof (cases ch')
      case None
      with ListItem.prems y Some show ?thesis by auto
    next
      case (Some cs')
      with ListItem.prems y \<open>ch = Some cs\<close>
      have eq: "flatten_items cs @ (''</ul>'' # ''</li>'' # r1) = flatten_items cs' @ (''</ul>'' # ''</li>'' # r2)"
        by (simp add: flatten_items_def)
      have cl: "closing (''</ul>'' # ''</li>'' # r1)" "closing (''</ul>'' # ''</li>'' # r2)"
        by (simp_all add: closing_def opens_item_def startswith_def)
      have "cs = cs' \<and> ''</ul>'' # ''</li>'' # r1 = ''</ul>'' # ''</li>'' # r2"
      proof (rule flatten_items_inj_aux [OF _ cl eq])
        fix x y r1 r2
        assume "x \<in> set cs" and "flatten_item x @ r1 = flatten_item y @ r2"
        with ListItem.IH \<open>ch = Some cs\<close> show "x = y \<and> r1 = r2" by auto
      qed
      with y t Some \<open>ch = Some cs\<close> show ?thesis by simp
    qed
  qed
qed

lemma flatten_items_inj: "flatten_items xs = flatten_items ys \<Longrightarrow> xs = ys"
proof -
  assume "flatten_items xs = flatten_items ys"
  then have "flatten_items xs @ [] = flatten_items ys @ []" by simp
  moreover have "closing []" by (simp add: closing_def)
  ultimately have "xs = ys \<and> ([]::string list) = []"
    by (intro flatten_items_inj_aux [where ?r1.0 = "[]" and ?r2.0 = "[]"]) (auto dest: flatten_item_inj)
  then show ?thesis ..
qed

text \<open>
  \<^bold>\<open>C6.\<close> For every list node, \<open>process_list\<close> returns the depth-first flattening
  of the item tree of the specification: each item with the space-joined text of its
  content before the first directly nested list, and that list, when there is one,
  recursed as the item's children, in source order. The flattening determines the
  tree: no other item tree has the same lines, so order and nesting can be read back.
\<close>

theorem process_list_flattens_item_tree:
  "process_list ul = flatten_items (list_items ul) \<and>
   (\<forall>items. flatten_items items = process_list ul \<longrightarrow> items = list_items ul)"
proof (intro conjI allI impI)
  show "process_list ul = flatten_items (list_items ul)" by (rule process_list_flatten)
next
  fix items
  assume "flatten_items items = process_list ul"
  then have "flatten_items items = flatten_items (list_items ul)"
    by (simp only: process_list_flatten)
  then show "items = list_items ul" by (rule flatten_items_inj)
qed

theorem process_list_flattens_item_tree_witness:
  "process_list example_list =
     [''<li>a bold'', ''<ul>'', ''<li>a1'', ''</li>'', ''</ul>'', ''</li>'', ''<li>b'', ''</li>''] \<and>
   list_items example_list =
     [ListItem ''a bold'' (Some [ListItem ''a1'' None]), ListItem ''b'' None]"
proof -
  have e1: "process_list example_list =
      [''<li>a bold'', ''<ul>'', ''<li>a1'', ''</li>'', ''</ul>'', ''</li>'', ''<li>b'', ''</li>'']"
    by code_simp
  have e2: "flatten_items [ListItem ''a bold'' (Some [ListItem ''a1'' None]), ListItem ''b'' None] =
      [''<li>a bold'', ''<ul>'', ''<li>a1'', ''</li>'', ''</ul>'', ''</li>'', ''<li>b'', ''</li>'']"
    by code_simp
  from e1 e2
  have e3: "flatten_items [ListItem ''a bold'' (Some [ListItem ''a1'' None]), ListItem ''b'' None] =
      process_list example_list"
    by (rule ssubst)
  from process_list_flattens_item_tree [of example_list]
  have "\<forall>items. flatten_items items = process_list example_list
      \<longrightarrow> items = list_items example_list" ..
  then have "flatten_items [ListItem ''a bold'' (Some [ListItem ''a1'' None]), ListItem ''b'' None] =
      process_list example_list
      \<longrightarrow> [ListItem ''a bold'' (Some [ListItem ''a1'' None]), ListItem ''b'' None] =
        list_items example_list" ..
  from this e3
  have "[ListItem ''a bold'' (Some [ListItem ''a1'' None]), ListItem ''b'' None] =
      list_items example_list" ..
  then have e4: "list_items example_list =
      [ListItem ''a bold'' (Some [ListItem ''a1'' None]), ListItem ''b'' None]" ..
  from e1 e4 show ?thesis ..
qed

lemma find_direct_first:
  "\<forall>x \<in> set pre. \<not> P x \<Longrightarrow> P u \<Longrightarrow> find_direct P (Tag n c a (pre @ u # rest)) = Some u"
  by (simp add: find_direct_def find_all_direct_def filter_empty_conv [THEN iffD2])

lemma li_text_before_first_ul:
  assumes "\<forall>x \<in> set pre. \<not> named [''ul''] x"
  shows "li_text (Tag n c a (pre @ Tag ''ul'' uc ua ucs # rest)) =
     strip (join '' '' (filter (\<lambda>t. t \<noteq> []) (map (\<lambda>x. clean_text (get_text x)) pre)))"
proof -
  from assms have "takeWhile (\<lambda>x. \<not> named [''ul''] x) (pre @ Tag ''ul'' uc ua ucs # rest) = pre"
    by (simp add: takeWhile_append2)
  then show ?thesis by (simp add: li_text_def li_text_parts_takeWhile)
qed

text \<open>
  \<^bold>\<open>C10.\<close> In a list item whose children are \<open>pre\<close> (no list among them), then a
  first nested list, then \<open>rest\<close>, only the first nested list is recursed, and whatever
  \<open>rest\<close> holds, further nested lists included, leaves no trace in the output. For the
  standalone formatter \<open>process_list\<close>: the lines of the item are its text, taken from
  \<open>pre\<close>, and the lines of the first nested list between \<^verbatim>\<open><ul>\<close> and \<^verbatim>\<open></ul>\<close>. For
  the rendering of lists in table cells, \<open>process_list_item\<close>: the lines are the bullet
  line of the item, when its text is not empty, and the lines of the items of the first
  nested list, each rendered with the second-level glyph and indentation. In both, and
  in the text of a cell that holds such an item, the output is the same as with \<open>rest\<close>
  removed.
\<close>

theorem later_sublists_dropped:
  assumes "\<forall>x \<in> set pre. \<not> named [''ul''] x"
  shows
    "process_list (Tag n c a (items_before @ Tag ''li'' lc la (pre @ Tag ''ul'' uc ua ucs # rest) # items_after)) =
     process_list (Tag n c a (items_before @ Tag ''li'' lc la (pre @ [Tag ''ul'' uc ua ucs]) # items_after)) \<and>
     process_list_item (Tag ''li'' lc la (pre @ Tag ''ul'' uc ua ucs # rest)) bullet_char indent =
     process_list_item (Tag ''li'' lc la (pre @ [Tag ''ul'' uc ua ucs])) bullet_char indent \<and>
     process_list (Tag n c a [Tag ''li'' lc la (pre @ Tag ''ul'' uc ua ucs # rest)]) =
       [''<li>'' @ strip (join '' '' (filter (\<lambda>t. t \<noteq> []) (map (\<lambda>x. clean_text (get_text x)) pre))),
        ''<ul>'']
       @ process_list (Tag ''ul'' uc ua ucs) @ [''</ul>'', ''</li>''] \<and>
     process_list_item (Tag ''li'' lc la (pre @ Tag ''ul'' uc ua ucs # rest)) bullet_char indent =
       (if strip (join '' '' (filter (\<lambda>t. t \<noteq> []) (map (\<lambda>x. clean_text (get_text x)) pre))) \<noteq> []
        then [indent @ bullet_char @ '' ''
              @ strip (join '' '' (filter (\<lambda>t. t \<noteq> []) (map (\<lambda>x. clean_text (get_text x)) pre)))]
        else [])
       @ concat (map (\<lambda>nested_li. process_list_item nested_li [CHR 0xE2, CHR 0x97, CHR 0xA6]
                        ''&nbsp;&nbsp;&nbsp;&nbsp;'')
                   (filter (named [''li'']) ucs)) \<and>
     cell_text (Tag tn tc ta
        (lists_before @ Tag ''ul'' c a (items_before @ Tag ''li'' lc la (pre @ Tag ''ul'' uc ua ucs # rest) # items_after)
           # lists_after)) =
     cell_text (Tag tn tc ta
        (lists_before @ Tag ''ul'' c a (items_before @ Tag ''li'' lc la (pre @ [Tag ''ul'' uc ua ucs]) # items_after)
           # lists_after))"
proof -
  let ?text = "strip (join '' '' (filter (\<lambda>t. t \<noteq> []) (map (\<lambda>x. clean_text (get_text x)) pre)))"
  have t: "\<And>r. li_text (Tag ''li'' lc la (pre @ Tag ''ul'' uc ua ucs # r)) = ?text"
    using assms by (rule li_text_before_first_ul)
  have f: "\<And>r. find_direct (named [''ul'']) (Tag ''li'' lc la (pre @ Tag ''ul'' uc ua ucs # r)) =
      Some (Tag ''ul'' uc ua ucs)"
    using assms by (intro find_direct_first) simp_all
  have i: "\<And>r b d. process_list_item (Tag ''li'' lc la (pre @ Tag ''ul'' uc ua ucs # r)) b d =
      (if ?text \<noteq> [] then [d @ b @ '' '' @ ?text] else [])
      @ concat (map (\<lambda>nested_li. process_list_item nested_li [CHR 0xE2, CHR 0x97, CHR 0xA6]
                       ''&nbsp;&nbsp;&nbsp;&nbsp;'')
                  (filter (named [''li'']) ucs))"
    by (simp only: process_list_item.simps t f option.case find_all_direct_def contents.simps
          white_bullet_def)
  have "process_list (Tag n c a (items_before @ Tag ''li'' lc la (pre @ Tag ''ul'' uc ua ucs # rest) # items_after)) =
      process_list (Tag n c a (items_before @ Tag ''li'' lc la (pre @ [Tag ''ul'' uc ua ucs]) # items_after))"
    by (simp add: find_all_direct_def t f del: process_list.simps
          add: process_list.simps(1) [of n c a])
  moreover
  have "process_list_item (Tag ''li'' lc la (pre @ Tag ''ul'' uc ua ucs # rest)) bullet_char indent =
      process_list_item (Tag ''li'' lc la (pre @ [Tag ''ul'' uc ua ucs])) bullet_char indent"
    by (simp only: i)
  moreover
  have "process_list (Tag n c a [Tag ''li'' lc la (pre @ Tag ''ul'' uc ua ucs # rest)]) =
      [''<li>'' @ ?text, ''<ul>''] @ process_list (Tag ''ul'' uc ua ucs) @ [''</ul>'', ''</li>'']"
    by (simp add: find_all_direct_def t f del: process_list.simps
          add: process_list.simps(1) [of n c a])
  moreover
  note i [of rest bullet_char indent]
  moreover
  have "cell_text (Tag tn tc ta
        (lists_before @ Tag ''ul'' c a (items_before @ Tag ''li'' lc la (pre @ Tag ''ul'' uc ua ucs # rest) # items_after)
           # lists_after)) =
     cell_text (Tag tn tc ta
        (lists_before @ Tag ''ul'' c a (items_before @ Tag ''li'' lc la (pre @ [Tag ''ul'' uc ua ucs]) # items_after)
           # lists_after))"
    by (simp add: cell_text_def find_all_direct_def i del: process_list_item.simps)
  ultimately show ?thesis by (intro conjI)
qed

theorem later_sublists_dropped_witness:
  "\<not> named [''ul''] (NavigableString ''a'') \<and>
   process_list
     (Tag ''ul'' None []
        [Tag ''li'' None []
           ([NavigableString ''a'']
            @ Tag ''ul'' None [] [Tag ''li'' None [] [NavigableString ''a1'']]
            # nested_item_children)]) =
     [''<li>a'', ''<ul>'', ''<li>a1'', ''</li>'', ''</ul>'', ''</li>''] \<and>
   process_list_item
     (Tag ''li'' None []
        ([NavigableString ''a'']
         @ Tag ''ul'' None [] [Tag ''li'' None [] [NavigableString ''a1'']]
         # nested_item_children)) [CHR 0xE2, CHR 0x80, CHR 0xA2] [] =
     [[CHR 0xE2, CHR 0x80, CHR 0xA2] @ '' a'', ''&nbsp;&nbsp;&nbsp;&nbsp;'' @ [CHR 0xE2, CHR 0x97, CHR 0xA6] @ '' a1''] \<and>
   cell_text
     (Tag ''td'' None []
        ([] @ Tag ''ul'' None []
                ([] @ Tag ''li'' None []
                        ([NavigableString ''a'']
                         @ Tag ''ul'' None [] [Tag ''li'' None [] [NavigableString ''a1'']]
                         # nested_item_children) # [])
         # [])) =
     [CHR 0xE2, CHR 0x80, CHR 0xA2] @ '' a<br/>&nbsp;&nbsp;&nbsp;&nbsp;'' @ [CHR 0xE2, CHR 0x97, CHR 0xA6] @ '' a1''"
proof -
  have h: "\<forall>x \<in> set [NavigableString ''a'']. \<not> named [''ul''] x" by simp
  note inst = later_sublists_dropped [OF h, where uc = None and ua = "[]"
      and ucs = "[Tag ''li'' None [] [NavigableString ''a1'']]" and rest = nested_item_children
      and lc = None and la = "[]" and n = "''ul''" and c = None and a = "[]"
      and items_before = "[]" and items_after = "[]" and lists_before = "[]" and lists_after = "[]"
      and tn = "''td''" and tc = None and ta = "[]"
      and bullet_char = "[CHR 0xE2, CHR 0x80, CHR 0xA2]" and indent = "[]"]
  have a: "\<not> named [''ul''] (NavigableString ''a'')" by simp
  have b: "process_list
     (Tag ''ul'' None []
        [Tag ''li'' None []
           ([NavigableString ''a'']
            @ Tag ''ul'' None [] [Tag ''li'' None [] [NavigableString ''a1'']]
            # nested_item_children)]) =
     [''<li>a'', ''<ul>'', ''<li>a1'', ''</li>'', ''</ul>'', ''</li>'']"
    by (rule inst [THEN conjunct2, THEN conjunct2, THEN conjunct1, THEN trans]) code_simp
  have c: "process_list_item
     (Tag ''li'' None []
        ([NavigableString ''a'']
         @ Tag ''ul'' None [] [Tag ''li'' None [] [NavigableString ''a1'']]
         # nested_item_children)) [CHR 0xE2, CHR 0x80, CHR 0xA2] [] =
     [[CHR 0xE2, CHR 0x80, CHR 0xA2] @ '' a'', ''&nbsp;&nbsp;&nbsp;&nbsp;'' @ [CHR 0xE2, CHR 0x97, CHR 0xA6] @ '' a1'']"
    by (rule inst [THEN conjunct2, THEN conjunct2, THEN conjunct2, THEN conjunct1, THEN trans])
      code_simp
  have d: "cell_text
     (Tag ''td'' None []
        ([] @ Tag ''ul'' None []
                ([] @ Tag ''li'' None []
                        ([NavigableString ''a'']
                         @ Tag ''ul'' None [] [Tag ''li'' None [] [NavigableString ''a1'']]
                         # nested_item_children) # [])
         # [])) =
     [CHR 0xE2, CHR 0x80, CHR 0xA2] @ '' a<br/>&nbsp;&nbsp;&nbsp;&nbsp;'' @ [CHR 0xE2, CHR 0x97, CHR 0xA6] @ '' a1''"
    by (rule inst [THEN conjunct2, THEN conjunct2, THEN conjunct2, THEN conjunct2, THEN trans])
      code_simp
  from a b c d show ?thesis by (intro conjI)
qed

section \<open>Properties of the content dispatch\<close>

text \<open>
  \<^bold>\<open>C8.\<close> For every image node: the result is empty exactly when no URL can be
  resolved (no \<^verbatim>\<open>img\<close> element, or no \<^verbatim>\<open>src\<close> on it). Otherwise the result is the
  image markup with the URL in its \<^verbatim>\<open>src\<close> and the caption in its \<^verbatim>\<open>alt\<close> and below the
  image, where the URL is \<^verbatim>\<open>https:\<close> and the attribute when that starts with \<^verbatim>\<open>//\<close>,
  the site origin and the attribute when it starts with another \<^verbatim>\<open>/\<close>, and the
  attribute itself in the remaining cases, and the caption is the \<^verbatim>\<open>title\<close> attribute,
  else the text of the nested caption element, else the constant \<^verbatim>\<open>Medical Image\<close>.
\<close>

theorem image_rule:
  "(extract_image_info img_span = [] \<longleftrightarrow>
      (\<forall>img. soup_find (named [''img'']) img_span = Some img \<longrightarrow> get_attr img ''src'' = [])) \<and>
   (\<forall>img. soup_find (named [''img'']) img_span = Some img \<and> get_attr img ''src'' \<noteq> [] \<longrightarrow>
      (let src = get_attr img ''src'';
           url = (if startswith src ''//'' then ''https:'' @ src
                  else if startswith src ''/'' then ''https://next.amboss.com'' @ src
                  else src);
           nested = soup_find (\<lambda>x. named [''span''] x \<and>
                        class_matches (\<lambda>c. c = ''thumbnail__image__title'') x) img_span;
           caption = (if get_attr img ''title'' \<noteq> [] then get_attr img ''title''
                      else (case nested of
                              None \<Rightarrow> ''Medical Image''
                            | Some title_span \<Rightarrow>
                                if get_text title_span \<noteq> [] then get_text title_span
                                else ''Medical Image''))
       in extract_image_info img_span =
            ''<div style='' @ [CHR 0x22] @ ''text-align: center; margin: 20px 0;'' @ [CHR 0x22] @ ''><img src='' @ [CHR 0x22]
            @ url @ [CHR 0x22] @ '' alt='' @ [CHR 0x22] @ caption
            @ [CHR 0x22] @ '' width='' @ [CHR 0x22] @ ''400'' @ [CHR 0x22] @ '' style='' @ [CHR 0x22] @ ''max-width: 100%; height: auto;'' @ [CHR 0x22] @ ''><p><em>''
            @ caption @ ''</em></p></div>''))"
proof (cases "soup_find (named [''img'']) img_span")
  case None
  then show ?thesis by (simp add: extract_image_info_def)
next
  case (Some img)
  show ?thesis
  proof (cases "get_attr img ''src'' = []")
    case True
    with Some show ?thesis by (simp add: extract_image_info_def)
  next
    case False
    with Some show ?thesis
      by (simp add: extract_image_info_def Let_def split: option.splits)
  qed
qed

theorem image_rule_witness:
  "extract_image_info example_image =
     ''<div style='' @ [CHR 0x22] @ ''text-align: center; margin: 20px 0;'' @ [CHR 0x22] @ ''><img src='' @ [CHR 0x22] @ ''https://next.amboss.com/img/x.png'' @ [CHR 0x22] @ '' alt='' @ [CHR 0x22] @ ''Medical Image'' @ [CHR 0x22] @ '' width='' @ [CHR 0x22] @ ''400'' @ [CHR 0x22] @ '' style='' @ [CHR 0x22] @ ''max-width: 100%; height: auto;'' @ [CHR 0x22] @ ''><p><em>Medical Image</em></p></div>'' \<and>
   extract_image_info titled_image =
     ''<div style='' @ [CHR 0x22] @ ''text-align: center; margin: 20px 0;'' @ [CHR 0x22] @ ''><img src='' @ [CHR 0x22] @ ''https://cdn.amboss.com/x.png'' @ [CHR 0x22] @ '' alt='' @ [CHR 0x22] @ ''Chest X-ray'' @ [CHR 0x22] @ '' width='' @ [CHR 0x22] @ ''400'' @ [CHR 0x22] @ '' style='' @ [CHR 0x22] @ ''max-width: 100%; height: auto;'' @ [CHR 0x22] @ ''><p><em>Chest X-ray</em></p></div>'' \<and>
   extract_image_info captioned_image =
     ''<div style='' @ [CHR 0x22] @ ''text-align: center; margin: 20px 0;'' @ [CHR 0x22] @ ''><img src='' @ [CHR 0x22] @ ''https://media.amboss.com/y.png'' @ [CHR 0x22] @ '' alt='' @ [CHR 0x22] @ ''Figure 1'' @ [CHR 0x22] @ '' width='' @ [CHR 0x22] @ ''400'' @ [CHR 0x22] @ '' style='' @ [CHR 0x22] @ ''max-width: 100%; height: auto;'' @ [CHR 0x22] @ ''><p><em>Figure 1</em></p></div>'' \<and>
   extract_image_info sourceless_image = []"
proof -
  have f1: "soup_find (named [''img'']) example_image =
      Some (Tag ''img'' None [(''src'', ''/img/x.png'')] [])"
    by code_simp
  have n1: "soup_find (\<lambda>x. named [''span''] x \<and>
      class_matches (\<lambda>c. c = ''thumbnail__image__title'') x) example_image = None"
    by code_simp
  from image_rule [of example_image, THEN conjunct2, THEN spec,
      of "Tag ''img'' None [(''src'', ''/img/x.png'')] []"] f1 n1
  have r1: "extract_image_info example_image =
     ''<div style='' @ [CHR 0x22] @ ''text-align: center; margin: 20px 0;'' @ [CHR 0x22] @ ''><img src='' @ [CHR 0x22] @ ''https://next.amboss.com/img/x.png'' @ [CHR 0x22] @ '' alt='' @ [CHR 0x22] @ ''Medical Image'' @ [CHR 0x22] @ '' width='' @ [CHR 0x22] @ ''400'' @ [CHR 0x22] @ '' style='' @ [CHR 0x22] @ ''max-width: 100%; height: auto;'' @ [CHR 0x22] @ ''><p><em>Medical Image</em></p></div>''"
    by (simp add: startswith_def Let_def)
  have f2: "soup_find (named [''img'']) titled_image =
      Some (Tag ''img'' None [(''src'', ''//cdn.amboss.com/x.png''), (''title'', ''Chest X-ray'')] [])"
    by code_simp
  from image_rule [of titled_image, THEN conjunct2, THEN spec,
      of "Tag ''img'' None [(''src'', ''//cdn.amboss.com/x.png''), (''title'', ''Chest X-ray'')] []"] f2
  have r2: "extract_image_info titled_image =
     ''<div style='' @ [CHR 0x22] @ ''text-align: center; margin: 20px 0;'' @ [CHR 0x22] @ ''><img src='' @ [CHR 0x22] @ ''https://cdn.amboss.com/x.png'' @ [CHR 0x22] @ '' alt='' @ [CHR 0x22] @ ''Chest X-ray'' @ [CHR 0x22] @ '' width='' @ [CHR 0x22] @ ''400'' @ [CHR 0x22] @ '' style='' @ [CHR 0x22] @ ''max-width: 100%; height: auto;'' @ [CHR 0x22] @ ''><p><em>Chest X-ray</em></p></div>''"
    by (simp add: startswith_def Let_def)
  have f3: "soup_find (named [''img'']) captioned_image =
      Some (Tag ''img'' None [(''src'', ''https://media.amboss.com/y.png'')] [])"
    by code_simp
  have n3: "soup_find (\<lambda>x. named [''span''] x \<and>
      class_matches (\<lambda>c. c = ''thumbnail__image__title'') x) captioned_image =
      Some (Tag ''span'' (Some [''thumbnail__image__title'']) [] [NavigableString ''Figure 1''])"
    by code_simp
  from image_rule [of captioned_image, THEN conjunct2, THEN spec,
      of "Tag ''img'' None [(''src'', ''https://media.amboss.com/y.png'')] []"] f3 n3
  have r3: "extract_image_info captioned_image =
     ''<div style='' @ [CHR 0x22] @ ''text-align: center; margin: 20px 0;'' @ [CHR 0x22] @ ''><img src='' @ [CHR 0x22] @ ''https://media.amboss.com/y.png'' @ [CHR 0x22] @ '' alt='' @ [CHR 0x22] @ ''Figure 1'' @ [CHR 0x22] @ '' width='' @ [CHR 0x22] @ ''400'' @ [CHR 0x22] @ '' style='' @ [CHR 0x22] @ ''max-width: 100%; height: auto;'' @ [CHR 0x22] @ ''><p><em>Figure 1</em></p></div>''"
    by (simp add: startswith_def Let_def)
  have f4: "soup_find (named [''img'']) sourceless_image =
      Some (Tag ''img'' None [(''alt'', ''x'')] [])"
    by code_simp
  from image_rule [of sourceless_image, THEN conjunct1] f4
  have r4: "extract_image_info sourceless_image = []"
    by simp
  from r1 r2 r3 r4 show ?thesis by (intro conjI)
qed

text \<open>
  \<^bold>\<open>C9\<close> as stated fails: a child that falls to the generic rule and has a list among
  its descendants, though not among its direct children, is still emitted as a
  paragraph.
\<close>

theorem generic_descendants_counterexample:
  "dispatch_rule wrapped_list_span = Generic \<and>
   soup_find_all (named [''ul'', ''table'', ''div'']) wrapped_list_span \<noteq> [] \<and>
   20 < length (clean_text (get_text wrapped_list_span)) \<and>
   child_parts wrapped_list_span = [''<p>xsome long text over twenty chars</p>'']"
  by code_simp

text \<open>
  \<^bold>\<open>C9\<close> as amended. For every child that matches none of the specific dispatch
  rules, a paragraph of its cleaned text is emitted if and only if none of its direct
  children is a \<^verbatim>\<open>ul\<close>, a \<^verbatim>\<open>table\<close> or a \<^verbatim>\<open>div\<close> and its cleaned text is longer than
  20 characters; in every other case the child contributes nothing.
\<close>

theorem generic_child_paragraph:
  assumes "dispatch_rule child = Generic"
  shows "child_parts child =
     (if find_all_direct (named [''ul'', ''table'', ''div'']) child = [] \<and>
         20 < length (clean_text (get_text child))
      then [''<p>'' @ clean_text (get_text child) @ ''</p>''] else [])"
proof -
  obtain n c a cs where child: "child = Tag n c a cs"
    using assms by (cases child) simp_all
  from assms child have
    "\<not> (named [''div''] child \<and>
         (\<exists>cls \<in> set [''table-wrapper'', ''paragraph'', ''merke'', ''cave'', ''content-box''].
            cls \<in> set (get_class child)))"
    by (auto split: if_splits)
  then have "extract_generic_content child =
     (if find_all_direct (named [''ul'', ''table'', ''div'']) child = [] \<and>
         20 < length (clean_text (get_text child))
      then ''<p>'' @ clean_text (get_text child) @ ''</p>'' else [])"
    unfolding extract_generic_content_def Let_def by auto
  with assms show ?thesis by (simp add: child_parts_def Let_def)
qed

theorem generic_child_paragraph_witness:
  "dispatch_rule plain_span = Generic \<and>
   child_parts plain_span = [''<p>some long text over twenty chars</p>'']"
proof -
  have h: "dispatch_rule plain_span = Generic" by code_simp
  have d: "find_all_direct (named [''ul'', ''table'', ''div'']) plain_span = []" by code_simp
  have t: "clean_text (get_text plain_span) = ''some long text over twenty chars''" by code_simp
  from generic_child_paragraph [OF h] d t
  have "child_parts plain_span = [''<p>some long text over twenty chars</p>'']" by simp
  with h show ?thesis by (intro conjI)
qed

section \<open>Properties of the section title\<close>

text \<open>
  \<^bold>\<open>C4\<close> as stated fails: \<^verbatim>\<open>extract_sections\<close> does not consult the cascade. A section
  without an \<^verbatim>\<open>h3\<close>, titled by a header button, has the cascade's title from the
  fourth strategy, and is returned by \<^verbatim>\<open>extract_sections\<close> under the placeholder.
\<close>

theorem cascade_not_used_counterexample:
  "claimed_section_title 1 button_section = ''Overview'' \<and>
   soup_find_all (\<lambda>x. named [''section''] x \<and>
       has_attr ''data-e2e-test-id'' ''section-with-header'' x) button_page =
     [features_section, button_section] \<and>
   map title (fst (extract_sections button_page)) = [''Clinical Features'', ''Section 2'']"
  by code_simp

lemma resolved_title_unfold:
  "resolved_title j nd =
     (case soup_find (named [''h3'']) nd of
        None \<Rightarrow> ''Section '' @ str_nat (j + 1)
      | Some h3 \<Rightarrow>
          if clean_text (get_text h3) \<noteq> [] then clean_text (get_text h3)
          else ''Section '' @ str_nat (j + 1))"
  by (simp add: resolved_title_def extract_section_title_from_element_def Let_def
        split: option.splits)

text \<open>
  \<^bold>\<open>C4\<close> as amended. For every section node, the title that \<^verbatim>\<open>extract_sections\<close>
  resolves is the cleaned text of the first \<^verbatim>\<open>h3\<close> anywhere in the section when that
  text is not empty, and the positional placeholder otherwise. The returned list is, in
  document order, one entry for each section node whose title, resolved so, does not
  contain ``references'' and whose content is not empty: the entry carries that title
  of that node and the content of that node.
\<close>

theorem section_title_first_h3_or_placeholder:
  fixes soup :: node
  defines "resolve \<equiv> \<lambda>(j::nat) nd.
     (case soup_find (named [''h3'']) nd of
        None \<Rightarrow> ''Section '' @ str_nat (j + 1)
      | Some h3 \<Rightarrow>
          if clean_text (get_text h3) \<noteq> [] then clean_text (get_text h3)
          else ''Section '' @ str_nat (j + 1))"
  shows "fst (extract_sections soup) =
     map (\<lambda>(j, nd). \<lparr>title = resolve j nd, content = extract_content_from_section nd\<rparr>)
       (filter (\<lambda>(j, nd). \<not> contains ''references'' (lower (resolve j nd)) \<and>
                           extract_content_from_section nd \<noteq> [])
          (enumerate 0
             (soup_find_all (\<lambda>x. named [''section''] x \<and>
                  has_attr ''data-e2e-test-id'' ''section-with-header'' x) soup)))"
proof -
  have r: "resolve = resolved_title"
    by (intro ext) (simp add: resolve_def resolved_title_unfold)
  show ?thesis
    unfolding r extract_sections_def fst_conv sections_loop_sections sections_loop_calls
      section_elements_def filter_filter
    by (rule arg_cong [where f = "map _"], rule filter_cong [OF refl]) auto
qed


theorem section_title_first_h3_or_placeholder_witness:
  "fst (extract_sections button_page) =
     [\<lparr>title = ''Clinical Features'', content = ''<p>Fever and cough.</p>''\<rparr>,
      \<lparr>title = ''Section 2'', content = ''<p>Asthma is common.</p>''\<rparr>]"
  by (rule section_title_first_h3_or_placeholder [of button_page, THEN trans]) code_simp

end
